theory Spec2Isabelle
  imports Complex_Main "HOL-Library.Sublist"
begin

section \<open>Python string operations used by the sources\<close>

text \<open>
  A Python \<open>str\<close> is modelled as a \<open>string\<close>: one \<open>char\<close> per code point, for the code
  points 0..255. \<open>bytes\<close> and \<open>bytearray\<close> values are \<open>char list\<close>s as well, one
  \<open>char\<close> per byte.
\<close>

datatype py_error = AttributeError | IndexError | UnicodeEncodeError | IOError

definition py_isspace :: "char \<Rightarrow> bool" where
  \<comment> \<open>\<open>str.isspace\<close> on one character: TAB..CR, FS..US, SPACE, NEL, NBSP.\<close>
  "py_isspace c =
     (let n = (of_char c :: nat)
      in (9 \<le> n \<and> n \<le> 13) \<or> (28 \<le> n \<and> n \<le> 32) \<or> n = 133 \<or> n = 160)"

definition py_strip :: "string \<Rightarrow> string" where
  \<comment> \<open>\<open>s.strip()\<close>: leading and trailing whitespace removed.\<close>
  "py_strip s = rev (dropWhile py_isspace (rev (dropWhile py_isspace s)))"

definition py_isdigit :: "char \<Rightarrow> bool" where
  \<comment> \<open>\<open>str.isdigit\<close> on one character: 0..9 and the superscripts two, three, one.\<close>
  "py_isdigit c =
     (let n = (of_char c :: nat)
      in (48 \<le> n \<and> n \<le> 57) \<or> n = 178 \<or> n = 179 \<or> n = 185)"

definition py_lower_char :: "char \<Rightarrow> char" where
  \<comment> \<open>\<open>str.lower\<close> on one character: A..Z and the Latin-1 capitals (not the
      multiplication sign) move down by 32.\<close>
  "py_lower_char c =
     (let n = (of_char c :: nat)
      in if (65 \<le> n \<and> n \<le> 90) \<or> (192 \<le> n \<and> n \<le> 222 \<and> n \<noteq> 215)
         then char_of (n + 32) else c)"

definition py_lower :: "string \<Rightarrow> string" where
  "py_lower s = map py_lower_char s"

definition py_ljust :: "nat \<Rightarrow> char \<Rightarrow> string \<Rightarrow> string" where
  \<comment> \<open>\<open>s.ljust(width, fill)\<close>: the text stays on the left, the fill goes to its right.\<close>
  "py_ljust width fill s = s @ replicate (width - length s) fill"

definition digit_char :: "nat \<Rightarrow> char" where
  "digit_char d = char_of (48 + d)"

function str_nat :: "nat \<Rightarrow> string" where
  \<comment> \<open>\<open>str(n)\<close> and \<open>f"{n}"\<close> for a non-negative integer: its decimal digits.\<close>
  "str_nat n = (if n < 10 then [digit_char n] else str_nat (n div 10) @ [digit_char (n mod 10)])"
  by pat_completeness auto
termination
  by (relation "measure id") auto

declare str_nat.simps [simp del]

function py_replace :: "string \<Rightarrow> string \<Rightarrow> string \<Rightarrow> string" where
  \<comment> \<open>\<open>s.replace(old, new)\<close>: every non-overlapping occurrence, leftmost first. With an
      empty \<open>old\<close> Python puts \<open>new\<close> before every character and at the end.\<close>
  "py_replace old new s =
     (if old = [] then concat (map (\<lambda>c. new @ [c]) s) @ new
      else if s = [] then []
      else if prefix old s then new @ py_replace old new (drop (length old) s)
      else hd s # py_replace old new (tl s))"
  by pat_completeness auto
termination
  by (relation "measure (\<lambda>(old, new, s). length s)") (auto simp: Suc_le_eq)

declare py_replace.simps [simp del]

definition truthy :: "string option \<Rightarrow> bool" where
  \<comment> \<open>Python truthiness of an \<open>Optional[str]\<close>: neither \<open>None\<close> nor the empty string.\<close>
  "truthy v = (case v of None \<Rightarrow> False | Some s \<Rightarrow> s \<noteq> [])"

fun re_search :: "(string \<Rightarrow> 'a option) \<Rightarrow> string \<Rightarrow> 'a option" where
  \<comment> \<open>\<open>re.search\<close>: the pattern is tried at every position from the left, and the first
      position where it matches wins. The first argument matches the pattern at the start
      of a text and returns what the pattern's group captured.\<close>
  "re_search match_here [] = match_here []"
| "re_search match_here (c # cs) =
     (case match_here (c # cs) of
        Some g \<Rightarrow> Some g
      | None \<Rightarrow> re_search match_here cs)"

definition re_digit :: "char \<Rightarrow> bool" where
  \<comment> \<open>The class \<open>\d\<close> of a text pattern: decimal digits, which are 0..9 here.\<close>
  "re_digit c = (let n = (of_char c :: nat) in 48 \<le> n \<and> n \<le> 57)"

section \<open>The ledger: \<open>core/csv_manager.py\<close>\<close>

text \<open>
  A cell read by \<open>csv.DictReader\<close> is a string, or \<open>None\<close> where the row is shorter than
  the header. A dictionary whose order is kept is an association list with distinct keys.
\<close>

type_synonym cell = "string option"

definition CSV_COLUMNS :: "string list" where
  "CSV_COLUMNS = [''serial_number'', ''date_programmed'', ''firmware_version'',
                  ''hardware_version'', ''region_code'', ''batch_id'', ''notes'']"

definition CSV_REPROGRAM_PREFIX :: string where
  "CSV_REPROGRAM_PREFIX = ''reprogram_''"

fun dict_set :: "'k \<Rightarrow> 'v \<Rightarrow> ('k \<times> 'v) list \<Rightarrow> ('k \<times> 'v) list" where
  \<comment> \<open>\<open>d[k] = v\<close>: an existing key keeps its place, a new key goes last.\<close>
  "dict_set k v [] = [(k, v)]"
| "dict_set k v ((k', v') # d) = (if k' = k then (k, v) # d else (k', v') # dict_set k v d)"

definition dict_get :: "('k \<times> 'v) list \<Rightarrow> 'k \<Rightarrow> 'v \<Rightarrow> 'v" where
  \<comment> \<open>\<open>d.get(k, default)\<close>\<close>
  "dict_get d k dflt = (case map_of d k of None \<Rightarrow> dflt | Some v \<Rightarrow> v)"

record CSVRow =
  serial_number :: cell
  date_programmed :: cell
  firmware_version :: cell
  hardware_version :: cell
  region_code :: cell
  batch_id :: cell
  notes_text :: cell
  extra_columns :: "(string \<times> cell) list"

definition is_programmed :: "CSVRow \<Rightarrow> py_error + bool" where
  \<comment> \<open>\<open>bool(self.date_programmed.strip())\<close>; \<open>None\<close> has no \<open>strip\<close>.\<close>
  "is_programmed r =
     (case date_programmed r of
        None \<Rightarrow> Inl AttributeError
      | Some d \<Rightarrow> Inr (py_strip d \<noteq> []))"

definition reprogram_count :: "CSVRow \<Rightarrow> nat" where
  \<comment> \<open>One for every key of \<open>extra_columns\<close> that starts with the prefix.\<close>
  "reprogram_count r =
     length (filter (\<lambda>k. prefix CSV_REPROGRAM_PREFIX k) (map fst (extra_columns r)))"

definition from_dict :: "(string \<times> cell) list \<Rightarrow> CSVRow" where
  "from_dict data =
     \<lparr> serial_number = dict_get data ''serial_number'' (Some ''''),
       date_programmed = dict_get data ''date_programmed'' (Some ''''),
       firmware_version = dict_get data ''firmware_version'' (Some ''''),
       hardware_version = dict_get data ''hardware_version'' (Some ''''),
       region_code = dict_get data ''region_code'' (Some ''''),
       batch_id = dict_get data ''batch_id'' (Some ''''),
       notes_text = dict_get data ''notes'' (Some ''''),
       extra_columns = filter (\<lambda>(k, v). k \<notin> set CSV_COLUMNS) data \<rparr>"

record CSVManager =
  path :: "string option"
  rows :: "CSVRow list"
  all_columns :: "string list"
  selected_index :: "nat option"
  modified :: bool

definition new_manager :: CSVManager where
  \<comment> \<open>\<open>CSVManager.__init__\<close>\<close>
  "new_manager =
     \<lparr> path = None, rows = [], all_columns = CSV_COLUMNS, selected_index = None,
       modified = False \<rparr>"

definition selected_row :: "CSVManager \<Rightarrow> CSVRow option" where
  "selected_row m =
     (case selected_index m of
        None \<Rightarrow> None
      | Some i \<Rightarrow> if i < length (rows m) then Some (rows m ! i) else None)"

definition select_row :: "CSVManager \<Rightarrow> nat \<Rightarrow> bool \<times> CSVManager" where
  "select_row m index =
     (if index < length (rows m)
      then (if selected_index m = Some index then (True, m)
            else (True, m\<lparr>selected_index := Some index\<rparr>))
      else (False, m))"

fun first_unprogrammed :: "nat \<Rightarrow> CSVRow list \<Rightarrow> py_error + nat option" where
  \<comment> \<open>The \<open>for i, row in enumerate(self._rows)\<close> loop of \<open>select_next_unprogrammed\<close>,
      from index \<open>i\<close> on: the index of the first row that is not programmed.\<close>
  "first_unprogrammed i [] = Inr None"
| "first_unprogrammed i (r # rs) =
     (case is_programmed r of
        Inl e \<Rightarrow> Inl e
      | Inr p \<Rightarrow> if \<not> p then Inr (Some i) else first_unprogrammed (Suc i) rs)"

definition select_next_unprogrammed :: "CSVManager \<Rightarrow> py_error + (bool \<times> CSVManager)" where
  "select_next_unprogrammed m =
     (case first_unprogrammed 0 (rows m) of
        Inl e \<Rightarrow> Inl e
      | Inr None \<Rightarrow> Inr (False, m)
      | Inr (Some i) \<Rightarrow> Inr (select_row m i))"

fun first_by_serial :: "nat \<Rightarrow> string \<Rightarrow> CSVRow list \<Rightarrow> nat option" where
  "first_by_serial i sn [] = None"
| "first_by_serial i sn (r # rs) =
     (if serial_number r = Some sn then Some i else first_by_serial (Suc i) sn rs)"

definition select_by_serial :: "CSVManager \<Rightarrow> string \<Rightarrow> bool \<times> CSVManager" where
  "select_by_serial m sn =
     (case first_by_serial 0 sn (rows m) of
        None \<Rightarrow> (False, m)
      | Some i \<Rightarrow> select_row m i)"

text \<open>
  What \<open>load\<close> finds at the path: nothing; a file that cannot be opened; or a header and
  the rows that \<open>csv.DictReader\<close> yields, with a flag telling whether reading raises after
  the last of them.
\<close>

datatype csv_file =
    Missing
  | Unreadable
  | Content "string list" "(string \<times> cell) list list" bool

definition add_columns :: "string list \<Rightarrow> string list \<Rightarrow> string list" where
  \<comment> \<open>\<open>for col in cols: if col not in self._all_columns: self._all_columns.append(col)\<close>\<close>
  "add_columns cols all = fold (\<lambda>col acc. if col \<in> set acc then acc else acc @ [col]) cols all"

definition load :: "CSVManager \<Rightarrow> string \<Rightarrow> csv_file \<Rightarrow> bool \<times> CSVManager" where
  "load m p file =
     (case file of
        Missing \<Rightarrow> (False, m)
      | Unreadable \<Rightarrow> (False, m\<lparr>rows := [], all_columns := CSV_COLUMNS\<rparr>)
      | Content fieldnames data raises \<Rightarrow>
          (let m1 = m\<lparr>rows := map from_dict data,
                      all_columns := add_columns fieldnames CSV_COLUMNS\<rparr>
           in if raises then (False, m1)
              else (let m2 = m1\<lparr>path := Some p, modified := False, selected_index := None\<rparr>
                    in case select_next_unprogrammed m2 of
                         Inl e \<Rightarrow> (False, m2)
                       | Inr (found, m3) \<Rightarrow> (True, m3))))"

definition handle_reprogram :: "CSVManager \<Rightarrow> nat \<Rightarrow> CSVManager" where
  \<comment> \<open>\<open>_handle_reprogram(row)\<close> for the row at index \<open>i\<close> (in range).\<close>
  "handle_reprogram m i =
     (let row = rows m ! i;
          count = reprogram_count row + 1;
          date_col = CSV_REPROGRAM_PREFIX @ str_nat count @ ''_date'';
          fw_col = CSV_REPROGRAM_PREFIX @ str_nat count @ ''_firmware'';
          reason_col = CSV_REPROGRAM_PREFIX @ str_nat count @ ''_reason'';
          ex1 = dict_set date_col (date_programmed row) (extra_columns row);
          ex2 = dict_set fw_col (firmware_version row) ex1;
          ex3 = dict_set reason_col (Some (''Reprogrammed ('' @ str_nat count @ '')'')) ex2
      in m\<lparr>all_columns := add_columns [date_col, fw_col, reason_col] (all_columns m),
            rows := (rows m)[i := row\<lparr>extra_columns := ex3\<rparr>]\<rparr>)"

definition update_selected_row ::
  "CSVManager \<Rightarrow> string \<Rightarrow> cell \<Rightarrow> cell \<Rightarrow> cell \<Rightarrow> string \<Rightarrow> bool \<Rightarrow> string
     \<Rightarrow> py_error + (bool \<times> CSVManager)" where
  \<comment> \<open>The last argument is \<open>datetime.now().strftime(CONFIG.DATE_FORMAT)\<close>.\<close>
  "update_selected_row m fw hw region batch nts mark now =
     (case selected_index m of
        None \<Rightarrow> Inr (False, m)
      | Some i \<Rightarrow>
          if \<not> i < length (rows m) then Inl IndexError
          else (case is_programmed (rows m ! i) of
                  Inl e \<Rightarrow> Inl e
                | Inr p \<Rightarrow>
                    (let m1 = (if p then handle_reprogram m i else m);
                         row = rows m1 ! i;
                         row1 = row\<lparr>firmware_version := Some fw, hardware_version := hw,
                                    region_code := region, batch_id := batch,
                                    notes_text := Some nts\<rparr>;
                         row2 = (if mark then row1\<lparr>date_programmed := Some now\<rparr> else row1)
                     in Inr (True, m1\<lparr>rows := (rows m1)[i := row2], modified := True\<rparr>))))"

definition blank_cell :: "cell \<Rightarrow> bool" where
  \<comment> \<open>A cell that holds a string which is empty or whitespace only.\<close>
  "blank_cell c = (case c of None \<Rightarrow> False | Some s \<Rightarrow> list_all py_isspace s)"

definition ledger_file :: csv_file where
  \<comment> \<open>A ledger of three units: one programmed, two not.\<close>
  "ledger_file = Content CSV_COLUMNS
     [[(''serial_number'', Some ''SN-001''), (''date_programmed'', Some ''2024-01-01 08:00:00'')],
      [(''serial_number'', Some ''SN-002''), (''date_programmed'', Some ''  '')],
      [(''serial_number'', Some ''SN-003''), (''date_programmed'', Some '''')]] False"

definition programmed_ledger :: CSVManager where
  \<comment> \<open>A loaded ledger whose only row is programmed and selected.\<close>
  "programmed_ledger =
     \<lparr> path = Some ''ledger.csv'',
       rows = [\<lparr> serial_number = Some ''SN-001'',
                  date_programmed = Some ''2024-01-01 08:00:00'',
                  firmware_version = Some ''1.0.0'', hardware_version = Some ''A'',
                  region_code = Some ''EU'', batch_id = Some ''B1'', notes_text = Some '''',
                  extra_columns = [] \<rparr>],
       all_columns = CSV_COLUMNS, selected_index = Some 0, modified = False \<rparr>"

definition reprogram_once ::
  "CSVManager \<Rightarrow> string \<Rightarrow> string \<Rightarrow> py_error + (bool \<times> CSVManager)" where
  \<comment> \<open>\<open>update_selected_row\<close> with a new firmware version at a new time.\<close>
  "reprogram_once m fw now =
     update_selected_row m fw (Some ''A'') (Some ''EU'') (Some ''B1'') '''' True now"

section \<open>Post-reboot verification: \<open>core/verification.py\<close>\<close>

datatype VerificationStatus = V_PASSED | V_FAILED | V_PARTIAL | V_ERROR

record VerificationCheck =
  check_name :: string
  expected :: string
  actual :: string
  passed :: bool
  check_message :: string

text \<open>
  \<open>SYSINFO\<close> and \<open>NETINFO\<close> answers are dictionaries from keys to strings; the provisioner
  returns \<open>None\<close> when the device does not answer.
\<close>

type_synonym info = "(string \<times> string) list"

record VerificationResult =
  v_status :: VerificationStatus
  v_message :: string
  checks :: "VerificationCheck list"
  sysinfo :: info
  netinfo :: info

definition passed_count :: "VerificationResult \<Rightarrow> nat" where
  "passed_count r = length (filter passed (checks r))"

definition failed_count :: "VerificationResult \<Rightarrow> nat" where
  "failed_count r = length (filter (\<lambda>c. \<not> passed c) (checks r))"

definition add_check ::
  "VerificationResult \<Rightarrow> string \<Rightarrow> string \<Rightarrow> string \<Rightarrow> string \<Rightarrow> bool \<times> VerificationResult" where
  "add_check r nm expd actl msg =
     (let p = (py_lower (py_strip expd) = py_lower (py_strip actl))
      in (p, r\<lparr>checks := checks r @
                 [\<lparr>check_name = nm, expected = expd, actual = actl, passed = p,
                   check_message = msg\<rparr>]\<rparr>))"

fun get_first :: "info \<Rightarrow> string list \<Rightarrow> string" where
  \<comment> \<open>\<open>d.get(k1) or d.get(k2) or ... or ""\<close>: the first value that is present and not
      empty.\<close>
  "get_first d [] = ''''"
| "get_first d (k # ks) =
     (case map_of d k of
        Some v \<Rightarrow> if v \<noteq> [] then v else get_first d ks
      | None \<Rightarrow> get_first d ks)"

definition verify_serial_number :: "VerificationResult \<Rightarrow> string \<Rightarrow> info \<Rightarrow> VerificationResult" where
  "verify_serial_number r expd si =
     (let actl = get_first si [''serial_number'', ''device_serial'', ''sn'', ''serial'']
      in snd (add_check r ''Serial Number'' expd actl
                (if actl \<noteq> [] then '''' else ''Serial number not found in SYSINFO'')))"

definition verify_region :: "VerificationResult \<Rightarrow> string \<Rightarrow> info \<Rightarrow> VerificationResult" where
  "verify_region r expd si =
     (let actl = get_first si [''region'', ''region_code'']
      in snd (add_check r ''Region'' expd actl
                (if actl \<noteq> [] then '''' else ''Region not found in SYSINFO'')))"

definition verify_firmware_version :: "VerificationResult \<Rightarrow> string \<Rightarrow> info \<Rightarrow> VerificationResult" where
  \<comment> \<open>\<open>Verifier._verify_firmware\<close>\<close>
  "verify_firmware_version r expd si =
     (let actl = get_first si [''firmware_version'', ''fw_version'', ''firmware'', ''version'']
      in snd (add_check r ''Firmware Version'' expd actl
                (if actl \<noteq> [] then '''' else ''Firmware version not found in SYSINFO'')))"

definition verify_hardware :: "VerificationResult \<Rightarrow> string \<Rightarrow> info \<Rightarrow> VerificationResult" where
  "verify_hardware r expd si =
     (let actl = get_first si [''hardware_version'', ''hw_version'', ''hardware'']
      in snd (add_check r ''Hardware Version'' expd actl
                (if actl \<noteq> [] then '''' else ''Hardware version not found in SYSINFO'')))"

definition run_checks ::
  "VerificationResult \<Rightarrow> info \<Rightarrow> string \<Rightarrow> string \<Rightarrow> string \<Rightarrow> string \<Rightarrow> VerificationResult" where
  \<comment> \<open>The four calls under \<open># Run verification checks\<close>, in their order.\<close>
  "run_checks r si serial region fw hw =
     verify_hardware
       (verify_firmware_version
          (verify_region (verify_serial_number r serial si) region si) fw si) hw si"

definition overall_status :: "VerificationResult \<Rightarrow> VerificationResult" where
  \<comment> \<open>The \<open>if/elif/else\<close> under \<open># Determine overall status\<close>.\<close>
  "overall_status r =
     (if failed_count r = 0
      then r\<lparr>v_status := V_PASSED,
              v_message := ''All '' @ str_nat (passed_count r) @ '' checks passed''\<rparr>
      else if passed_count r > 0
      then r\<lparr>v_status := V_PARTIAL,
              v_message := str_nat (passed_count r) @ '' passed, ''
                             @ str_nat (failed_count r) @ '' failed''\<rparr>
      else r\<lparr>v_status := V_FAILED,
              v_message := ''All '' @ str_nat (failed_count r) @ '' checks failed''\<rparr>)"

definition verify ::
  "info option \<Rightarrow> info option \<Rightarrow> string \<Rightarrow> string \<Rightarrow> string \<Rightarrow> string \<Rightarrow> VerificationResult" where
  \<comment> \<open>\<open>Verifier.verify\<close>; the first two arguments are what \<open>get_system_info()\<close> and
      \<open>get_network_info()\<close> return.\<close>
  "verify si_opt ni_opt serial region fw hw =
     (let r0 = \<lparr>v_status = V_ERROR, v_message = [], checks = [], sysinfo = [], netinfo = []\<rparr>
      in case si_opt of
           None \<Rightarrow> r0\<lparr>v_message := ''Failed to get SYSINFO from device''\<rparr>
         | Some si \<Rightarrow>
             if si = [] then r0\<lparr>v_message := ''Failed to get SYSINFO from device''\<rparr>
             else (let r1 = r0\<lparr>sysinfo := si\<rparr>;
                       r2 = (case ni_opt of
                               None \<Rightarrow> r1
                             | Some ni \<Rightarrow> if ni = [] then r1 else r1\<lparr>netinfo := ni\<rparr>)
                   in overall_status (run_checks r2 si serial region fw hw)))"

definition sysinfo_example :: info where
  \<comment> \<open>A \<open>SYSINFO\<close> answer with the right serial number and region, another firmware
      version and no hardware version.\<close>
  "sysinfo_example = [(''serial'', ''sn-001 ''), (''region'', ''EU''), (''version'', ''1.0.1'')]"

section \<open>Firmware upload: \<open>core/firmware_uploader.py\<close>\<close>

datatype UploadStatus =
  U_SUCCESS | U_FAILED | PICOTOOL_NOT_FOUND | FIRMWARE_NOT_FOUND | NO_DEVICE | INVALID_FIRMWARE

record UploadResult =
  u_status :: UploadStatus
  u_message :: string
  exit_code :: int
  stdout :: string
  stderr :: string

definition success :: "UploadResult \<Rightarrow> bool" where
  "success r = (u_status r = U_SUCCESS)"

definition FIRMWARE_EXTENSIONS :: "string list" where
  "FIRMWARE_EXTENSIONS = [''.elf'', ''.hex'', ''.uf2'']"

definition PICOTOOL_LOAD_ARGS :: "string list" where
  "PICOTOOL_LOAD_ARGS = [''-fx'']"

text \<open>
  What \<open>pathlib\<close> reports for the firmware path: \<open>exists()\<close>, \<open>is_file()\<close>, \<open>suffix\<close>,
  \<open>name\<close> and \<open>stat().st_size\<close>.
\<close>

record path_info =
  p_exists :: bool
  p_is_file :: bool
  p_suffix :: string
  p_name :: string
  p_size :: nat

text \<open>How \<open>subprocess.run\<close> ends: with an exit code and the two outputs, or by raising.\<close>

datatype run_outcome =
    Completed int string string
  | TimeoutExpired
  | OtherException string

record upload_env =
  picotool_path :: string
  picotool_present :: bool
  firmware :: path_info
  run :: run_outcome

fun join :: "string \<Rightarrow> string list \<Rightarrow> string" where
  \<comment> \<open>\<open>sep.join(items)\<close>\<close>
  "join sep [] = []"
| "join sep [x] = x"
| "join sep (x # y # ys) = x @ sep @ join sep (y # ys)"

fun contains :: "string \<Rightarrow> string \<Rightarrow> bool" where
  \<comment> \<open>\<open>sub in s\<close>\<close>
  "contains sub [] = (sub = [])"
| "contains sub (c # cs) = (prefix sub (c # cs) \<or> contains sub cs)"

definition apostrophe :: string where
  "apostrophe = [char_of (39 :: nat)]"

definition verify_firmware :: "path_info \<Rightarrow> string \<Rightarrow> bool \<times> string" where
  "verify_firmware fi firmware_path =
     (if \<not> p_exists fi then (False, ''Firmware file not found: '' @ firmware_path)
      else if \<not> p_is_file fi then (False, ''Not a file: '' @ firmware_path)
      else (let ext = py_lower (p_suffix fi)
            in if ext \<notin> set FIRMWARE_EXTENSIONS
               then (False, ''Invalid firmware extension '' @ apostrophe @ ext @ apostrophe
                              @ ''. Expected: '' @ join '', '' FIRMWARE_EXTENSIONS)
               else (let size = p_size fi
                     in if size < 100
                        then (False, ''Firmware file too small ('' @ str_nat size @ '' bytes)'')
                        else if size > 16 * 1024 * 1024
                        then (False, ''Firmware file too large ('' @ str_nat size @ '' bytes)'')
                        else (True, ''Firmware valid: '' @ p_name fi @ '' ('' @ str_nat size
                                      @ '' bytes)''))))"

definition upload :: "upload_env \<Rightarrow> string \<Rightarrow> UploadResult \<times> string list list" where
  \<comment> \<open>\<open>FirmwareUploader.upload\<close>. The second component lists the commands handed to
      \<open>subprocess.run\<close>.\<close>
  "upload env firmware_path =
     (if \<not> picotool_present env
      then (\<lparr>u_status = PICOTOOL_NOT_FOUND,
              u_message = ''picotool not found at: '' @ picotool_path env,
              exit_code = 0, stdout = [], stderr = []\<rparr>, [])
      else (case verify_firmware (firmware env) firmware_path of
              (False, msg) \<Rightarrow>
                (\<lparr>u_status = FIRMWARE_NOT_FOUND, u_message = msg,
                  exit_code = 0, stdout = [], stderr = []\<rparr>, [])
            | (True, msg) \<Rightarrow>
                (let cmd = [picotool_path env, ''load'', firmware_path] @ PICOTOOL_LOAD_ARGS
                 in case run env of
                      Completed rc out err \<Rightarrow>
                        if rc = 0
                        then (\<lparr>u_status = U_SUCCESS,
                                u_message = ''Firmware uploaded successfully'',
                                exit_code = rc, stdout = out, stderr = err\<rparr>, [cmd])
                        else (let error_msg = (if err \<noteq> [] then err else out)
                              in if contains ''No accessible RP2040'' error_msg
                                 then (\<lparr>u_status = NO_DEVICE,
                                         u_message = ''No RP2040 device found in BOOTSEL mode'',
                                         exit_code = rc, stdout = out, stderr = err\<rparr>, [cmd])
                                 else (\<lparr>u_status = U_FAILED,
                                         u_message = ''Upload failed: '' @ error_msg,
                                         exit_code = rc, stdout = out, stderr = err\<rparr>, [cmd]))
                    | TimeoutExpired \<Rightarrow>
                        (\<lparr>u_status = U_FAILED,
                          u_message = ''Firmware upload timed out (60s)'',
                          exit_code = 0, stdout = [], stderr = []\<rparr>, [cmd])
                    | OtherException e \<Rightarrow>
                        (\<lparr>u_status = U_FAILED,
                          u_message = ''Error during upload: '' @ e,
                          exit_code = 0, stdout = [], stderr = []\<rparr>, [cmd]))))"

definition invalid_firmware :: "path_info \<Rightarrow> bool" where
  \<comment> \<open>The firmware path fails validation: missing, not a regular file, an extension
      outside the accepted set, or a size below 100 bytes or above 16 MiB.\<close>
  "invalid_firmware fi =
     (\<not> p_exists fi \<or> \<not> p_is_file fi \<or> py_lower (p_suffix fi) \<notin> set FIRMWARE_EXTENSIONS
      \<or> p_size fi < 100 \<or> p_size fi > 16777216)"

definition text_file_env :: upload_env where
  \<comment> \<open>The flashing tool is installed; the firmware path names a text file.\<close>
  "text_file_env =
     \<lparr> picotool_path = ''/usr/bin/picotool'', picotool_present = True,
       firmware = \<lparr> p_exists = True, p_is_file = True, p_suffix = ''.TXT'',
                    p_name = ''notes.TXT'', p_size = 4096 \<rparr>,
       run = Completed 0 [] [] \<rparr>"

definition no_tool_env :: upload_env where
  \<comment> \<open>Neither the flashing tool nor the firmware file exists.\<close>
  "no_tool_env =
     \<lparr> picotool_path = ''/usr/bin/picotool'', picotool_present = False,
       firmware = \<lparr> p_exists = False, p_is_file = False, p_suffix = ''.uf2'',
                    p_name = ''fw.uf2'', p_size = 0 \<rparr>,
       run = Completed 0 [] [] \<rparr>"

section \<open>The serial-number header: \<open>FlashApp/core/serial_manager.py\<close>\<close>

definition numeric_version :: "string \<Rightarrow> string" where
  \<comment> \<open>\<open>''.join(filter(str.isdigit, firmware_version))\<close>, then \<open>ljust(3, '0')\<close> when
      fewer than three characters remain.\<close>
  "numeric_version fw_version =
     (let nv = filter py_isdigit fw_version
      in if length nv < 3 then py_ljust 3 (CHR ''0'') nv else nv)"

text \<open>
  The template file as \<open>generate_serial_header\<close> finds it: absent, present but raising
  when opened or read, or present with its content.
\<close>

datatype template_state = T_Missing | T_Unreadable | T_Content string

definition generate_serial_header ::
  "template_state \<Rightarrow> bool \<Rightarrow> string \<Rightarrow> string \<Rightarrow> bool \<times> string option" where
  \<comment> \<open>The second argument tells whether writing the output file raises. The result is
      the returned flag and the content written to the output file, if any.\<close>
  "generate_serial_header template write_raises serial fw_version =
     (case template of
        T_Missing \<Rightarrow> (False, None)
      | T_Unreadable \<Rightarrow> (False, None)
      | T_Content template_content \<Rightarrow>
          (let nv = numeric_version fw_version;
               c1 = py_replace ''SERIAL_NUMBER_PLACEHOLDER'' serial template_content;
               c2 = py_replace ''FIRMWARE_VERSION_PLACEHOLDER'' fw_version c1;
               c3 = py_replace ''NUMERIC_VERSION_PLACEHOLDER'' nv c2
           in if write_raises then (False, None) else (True, Some c3)))"

definition left_padded_version :: "string \<Rightarrow> string" where
  \<comment> \<open>The numeric version in the specification's words: the digits of the version,
      padded with zeros on the left up to three characters.\<close>
  "left_padded_version fw_version =
     (let nv = filter py_isdigit fw_version
      in replicate (3 - length nv) (CHR ''0'') @ nv)"

definition header_template :: string where
  \<comment> \<open>A template that holds each of the three placeholders once.\<close>
  "header_template =
     ''SN=SERIAL_NUMBER_PLACEHOLDER FW=FIRMWARE_VERSION_PLACEHOLDER NUM=NUMERIC_VERSION_PLACEHOLDER''"

section \<open>Label generation: \<open>label/label_generator.py\<close>\<close>

datatype LabelStatus =
  L_SUCCESS | TEMPLATE_NOT_FOUND | RENDER_ERROR | PRINT_ERROR | PRINTER_NOT_FOUND | LIBRARY_MISSING

definition LABEL_WIDTH_MM :: rat where "LABEL_WIDTH_MM = 75"
definition LABEL_HEIGHT_MM :: rat where "LABEL_HEIGHT_MM = 50"
definition LABEL_DPI :: rat where "LABEL_DPI = 300"

definition py_int :: "rat \<Rightarrow> int" where
  \<comment> \<open>\<open>int(x)\<close> of a number: the fraction is cut off, towards zero.\<close>
  "py_int x = (if x \<ge> 0 then \<lfloor>x\<rfloor> else \<lceil>x\<rceil>)"

text \<open>
  The pixel size is computed on exact rationals. The source computes it on binary
  floating-point numbers, whose results for these operands differ from the exact values by
  less than one part in \<open>10\<^sup>9\<close>; \<open>label_px_tolerance\<close> below shows that a deviation of up
  to a tenth of a pixel does not change what \<open>int\<close> returns.
\<close>

definition label_px :: "rat \<Rightarrow> rat \<Rightarrow> int" where
  \<comment> \<open>\<open>int(mm / 25.4 * dpi)\<close>\<close>
  "label_px mm dpi = py_int (mm / (254 / 10) * dpi)"

text \<open>
  What the libraries do during one \<open>generate_label\<close>: whether they are installed, whether
  the template exists, the size of the raster that \<open>renderPM\<close> writes (\<open>None\<close> when
  reading, parsing or rendering raises), whether opening, resizing or saving the image
  raises, and whether removing the temporary file raises.
\<close>

record label_env =
  svg_available :: bool
  pil_available :: bool
  template_exists :: bool
  rendered :: "(int \<times> int) option"
  resize_raises :: bool
  unlink_raises :: bool

definition resize_image :: "label_env \<Rightarrow> int \<times> int \<Rightarrow> int \<Rightarrow> int \<Rightarrow> int \<times> int" where
  \<comment> \<open>\<open>_resize_image\<close>: the size of the image file afterwards. A failure is logged and
      leaves the file as it was rendered.\<close>
  "resize_image env sz width height =
     (if \<not> pil_available env then sz
      else if resize_raises env then sz
      else if sz \<noteq> (width, height) then (width, height) else sz)"

definition generate_label :: "label_env \<Rightarrow> LabelStatus \<times> (int \<times> int) option" where
  \<comment> \<open>\<open>generate_label\<close>: the status of the result and the pixel size of the image file
      that was written, if one was.\<close>
  "generate_label env =
     (if \<not> svg_available env then (LIBRARY_MISSING, None)
      else if \<not> pil_available env then (LIBRARY_MISSING, None)
      else if \<not> template_exists env then (TEMPLATE_NOT_FOUND, None)
      else (case rendered env of
              None \<Rightarrow> (RENDER_ERROR, None)
            | Some sz \<Rightarrow>
                (let width_px = label_px LABEL_WIDTH_MM LABEL_DPI;
                     height_px = label_px LABEL_HEIGHT_MM LABEL_DPI;
                     out = resize_image env sz width_px height_px
                 in if unlink_raises env then (RENDER_ERROR, Some out)
                    else (L_SUCCESS, Some out))))"

definition rounded_px :: "rat \<Rightarrow> rat \<Rightarrow> int" where
  \<comment> \<open>The pixel size in the specification's words: \<open>round(mm / 25.4 * dpi)\<close>.\<close>
  "rounded_px mm dpi = round (mm / (254 / 10) * dpi)"

definition label_env_ok :: label_env where
  \<comment> \<open>Every library call succeeds; the template renders to 1000 by 700 pixels.\<close>
  "label_env_ok =
     \<lparr> svg_available = True, pil_available = True, template_exists = True,
       rendered = Some (1000, 700), resize_raises = False, unlink_raises = False \<rparr>"

definition label_env_resize_fails :: label_env where
  \<comment> \<open>As \<open>label_env_ok\<close>, but the image library raises while the raster is resized.\<close>
  "label_env_resize_fails = label_env_ok\<lparr>resize_raises := True\<rparr>"

section \<open>Deployment from the command line: \<open>FlashApp/flasher_core.py\<close>\<close>

definition after_label :: "string \<Rightarrow> string \<Rightarrow> string option" where
  \<comment> \<open>The part \<open>label\s*:\s*\<close> that both boot-line patterns start with, matched at the
      start of a text: what follows it. Whitespace and the colon exclude each other, so
      the greedy \<open>\s*\<close> never has to give characters back.\<close>
  "after_label label s =
     (if prefix label s
      then (let r = dropWhile py_isspace (drop (length label) s)
            in case r of
                 [] \<Rightarrow> None
               | c # r' \<Rightarrow> if c = CHR '':'' then Some (dropWhile py_isspace r') else None)
      else None)"

definition match_serial :: "string \<Rightarrow> string option" where
  \<comment> \<open>\<open>Device Serial\s*:\s*(SN-\d+)\<close> at the start of a text: group 1.\<close>
  "match_serial s =
     (case after_label ''Device Serial'' s of
        None \<Rightarrow> None
      | Some r \<Rightarrow>
          if prefix ''SN-'' r \<and> takeWhile re_digit (drop 3 r) \<noteq> []
          then Some (''SN-'' @ takeWhile re_digit (drop 3 r)) else None)"

definition digits_dot :: "string \<Rightarrow> (string \<times> string) option" where
  \<comment> \<open>\<open>\d+\.\<close> at the start of a text: the digits, and what follows the dot.\<close>
  "digits_dot s =
     (let d = takeWhile re_digit s; r = dropWhile re_digit s
      in if d \<noteq> [] \<and> prefix ''.'' r then Some (d, drop 1 r) else None)"

definition match_firmware :: "string \<Rightarrow> string option" where
  \<comment> \<open>\<open>Firmware Ver\s*:\s*(\d+\.\d+\.\d+)\<close> at the start of a text: group 1.\<close>
  "match_firmware s =
     (case after_label ''Firmware Ver'' s of
        None \<Rightarrow> None
      | Some r \<Rightarrow>
          (case digits_dot r of
             None \<Rightarrow> None
           | Some (d1, r1) \<Rightarrow>
               (case digits_dot r1 of
                  None \<Rightarrow> None
                | Some (d2, r2) \<Rightarrow>
                    if takeWhile re_digit r2 \<noteq> []
                    then Some (d1 @ ''.'' @ d2 @ ''.'' @ takeWhile re_digit r2)
                    else None)))"

text \<open>
  One turn of the read loop of \<open>monitor_serial_port\<close> gets a decoded line (empty when the
  read timed out), or the read raises. The list of turns ends when the ten seconds are
  over.
\<close>

datatype read_event = Line string | SerialException | ReadError

fun monitor_loop ::
  "string option \<Rightarrow> string option \<Rightarrow> string option \<Rightarrow> read_event list
     \<Rightarrow> bool \<times> string option \<times> string option" where
  "monitor_loop target ds df [] = (False, ds, df)"
| "monitor_loop target ds df (SerialException # es) = (False, ds, df)"
| "monitor_loop target ds df (ReadError # es) = (False, ds, df)"
| "monitor_loop target ds df (Line raw # es) =
     (let line = py_strip raw
      in if line = [] then monitor_loop target ds df es
         else (let ds' = (case re_search match_serial line of Some s \<Rightarrow> Some s | None \<Rightarrow> ds);
                   df' = (case re_search match_firmware line of Some f \<Rightarrow> Some f | None \<Rightarrow> df)
               in if truthy ds' \<and> truthy df'
                  then (if truthy target \<and> ds' \<noteq> target then (False, ds', df')
                        else (True, ds', df'))
                  else monitor_loop target ds' df' es))"

definition monitor_serial_port ::
  "bool \<Rightarrow> read_event list \<Rightarrow> string option \<Rightarrow> bool \<times> string option \<times> string option" where
  \<comment> \<open>The first argument tells whether the port could be opened.\<close>
  "monitor_serial_port port_opens events target =
     (if \<not> port_opens then (False, None, None)
      else monitor_loop target None None events)"

text \<open>
  What \<open>deploy_firmware\<close> finds around it: the UF2 path of the build, whether an ELF file
  is there, what \<open>flash_with_picotool\<close> returns for either file, the port that
  \<open>wait_for_new_serial_port(timeout=15)\<close> returns, and what the port then delivers.
\<close>

record deploy_env =
  uf2_path :: "string option"
  elf_usable :: bool
  flash_elf_ok :: bool
  flash_uf2_ok :: bool
  new_port :: "string option"
  port_opens :: bool
  boot_events :: "read_event list"

definition verify_flashed :: "deploy_env \<Rightarrow> string option \<Rightarrow> bool \<Rightarrow> bool" where
  \<comment> \<open>The steps after a flash that succeeded, with verification on. The source has them
      twice, word for word: after the ELF flash and after the UF2 flash.\<close>
  "verify_flashed env serial reprogram =
     (if truthy (new_port env)
      then (case monitor_serial_port (port_opens env) (boot_events env) serial of
              (verified, detected_serial, detected_firmware) \<Rightarrow>
                if verified then True
                else if truthy detected_serial \<and> truthy serial \<and> detected_serial \<noteq> serial
                then (if reprogram then True else False)
                else True)
      else True)"

definition deploy_firmware :: "deploy_env \<Rightarrow> string option \<Rightarrow> bool \<Rightarrow> bool \<Rightarrow> bool" where
  \<comment> \<open>\<open>deploy_firmware(build_manager, force, serial_number, verify, reprogram)\<close>\<close>
  "deploy_firmware env serial verify_flag reprogram =
     (if \<not> truthy (uf2_path env) then False
      else if elf_usable env \<and> flash_elf_ok env
      then (if \<not> verify_flag then True else verify_flashed env serial reprogram)
      else if flash_uf2_ok env
      then (if \<not> verify_flag then True else verify_flashed env serial reprogram)
      else False)"

definition flashed :: "deploy_env \<Rightarrow> bool" where
  \<comment> \<open>The build has a UF2 file and one of the two flash attempts succeeds.\<close>
  "flashed env = (truthy (uf2_path env) \<and> ((elf_usable env \<and> flash_elf_ok env) \<or> flash_uf2_ok env))"

definition deploy_env_other_serial :: deploy_env where
  \<comment> \<open>The device reboots and reports the serial number SN-007 and a firmware version.\<close>
  "deploy_env_other_serial =
     \<lparr> uf2_path = Some ''build/fw.uf2'', elf_usable = True, flash_elf_ok = True,
       flash_uf2_ok = False, new_port = Some ''COM7'', port_opens = True,
       boot_events = [Line '''', Line ''Booting...'', Line ''Device Serial : SN-007'',
                      Line ''Firmware Ver: 1.0.0''] \<rparr>"

definition deploy_env_no_port :: deploy_env where
  \<comment> \<open>The ELF flash fails, the UF2 flash succeeds, and no new port appears.\<close>
  "deploy_env_no_port =
     \<lparr> uf2_path = Some ''build/fw.uf2'', elf_usable = True, flash_elf_ok = False,
       flash_uf2_ok = True, new_port = None, port_opens = False, boot_events = [] \<rparr>"

definition deploy_env_timeout :: deploy_env where
  \<comment> \<open>The device reboots and reports its firmware version only until the time is over.\<close>
  "deploy_env_timeout =
     \<lparr> uf2_path = Some ''build/fw.uf2'', elf_usable = False, flash_elf_ok = False,
       flash_uf2_ok = True, new_port = Some ''COM7'', port_opens = True,
       boot_events = [Line ''Firmware Ver : 1.0.0'', Line '''', Line ''''] \<rparr>"

section \<open>The programming workflow: \<open>gui/main_window.py\<close>\<close>

datatype WorkflowState =
    IDLE | WAITING_FOR_DEVICE | UPLOADING_FIRMWARE | WAITING_FOR_SERIAL | PROVISIONING
  | VERIFYING | GENERATING_LABEL | GENERATING_REPORT | UPDATING_CSV | COMPLETED | ERROR
  | STOPPED

text \<open>The messages that the worker thread queues for the window.\<close>

datatype message = State WorkflowState | Complete bool | Error string

text \<open>
  What one run of \<open>_run_workflow\<close> meets. A step that can raise is a sum, with the text of
  the exception on the left. \<open>stop_requested\<close> is read before each of the seven steps.
\<close>

record workflow_env =
  stop_requested :: "nat \<Rightarrow> bool"
  upload_step :: "string + UploadResult"
  wait_step :: "string + string option"
  provision_step :: "string + (bool \<times> string)"
  reconnect_step :: "string + string option"
  verify_step :: "string + VerificationResult"
  label_step :: "string + bool"
  report_step :: "string + unit"
  csv_write_ok :: bool
  now :: string
  ctx_serial_number :: string
  ctx_firmware_version :: string
  ctx_hardware_version :: string
  ctx_region_code :: string
  ctx_batch_id :: string
  ctx_notes :: string

text \<open>
  What the run leaves behind: the queued messages in their order, the ledger manager (if
  the window has one), the number of calls of \<open>CSVManager.save\<close>, and the upload result
  kept in the workflow context.
\<close>

record workflow_out =
  queue :: "message list"
  ledger :: "CSVManager option"
  save_calls :: nat
  ctx_upload_result :: "UploadResult option"

definition queue_message :: "message \<Rightarrow> workflow_out \<Rightarrow> workflow_out" where
  "queue_message msg out = out\<lparr>queue := queue out @ [msg]\<rparr>"

definition raise_error :: "string \<Rightarrow> workflow_out \<Rightarrow> workflow_out" where
  \<comment> \<open>The \<open>except Exception as e\<close> handler: \<open>{"type": "error", "message": str(e)}\<close>.\<close>
  "raise_error e out = queue_message (Error e) out"

definition error_text :: "py_error \<Rightarrow> string" where
  "error_text e =
     (case e of
        IndexError \<Rightarrow> ''list index out of range''
      | AttributeError \<Rightarrow> apostrophe @ ''NoneType'' @ apostrophe @ '' object has no attribute ''
                           @ apostrophe @ ''strip'' @ apostrophe
      | UnicodeEncodeError \<Rightarrow> ''UnicodeEncodeError''
      | IOError \<Rightarrow> ''IOError'')"

definition save :: "CSVManager \<Rightarrow> bool \<Rightarrow> bool \<times> CSVManager" where
  \<comment> \<open>\<open>CSVManager.save\<close>; the second argument tells whether the file can be written.\<close>
  "save m write_ok =
     (if path m = None then (False, m)
      else if write_ok then (True, m\<lparr>modified := False\<rparr>) else (False, m))"

definition complete :: "workflow_out \<Rightarrow> workflow_out" where
  \<comment> \<open>The two messages under \<open># Complete!\<close>.\<close>
  "complete out = queue_message (Complete True) (queue_message (State COMPLETED) out)"

definition step_update_csv :: "workflow_env \<Rightarrow> workflow_out \<Rightarrow> workflow_out" where
  \<comment> \<open>Step 7 and the completion messages.\<close>
  "step_update_csv env out =
     (if stop_requested env 7 then out
      else (let out1 = queue_message (State UPDATING_CSV) out
            in case ledger out1 of
                 None \<Rightarrow> complete out1
               | Some m \<Rightarrow>
                   (let m1 = snd (select_by_serial m (ctx_serial_number env))
                    in case update_selected_row m1 (ctx_firmware_version env)
                              (Some (ctx_hardware_version env)) (Some (ctx_region_code env))
                              (Some (ctx_batch_id env)) (ctx_notes env) True (now env) of
                         Inl e \<Rightarrow> raise_error (error_text e) (out1\<lparr>ledger := Some m1\<rparr>)
                       | Inr (False, m2) \<Rightarrow> complete (out1\<lparr>ledger := Some m2\<rparr>)
                       | Inr (True, m2) \<Rightarrow>
                           (let m3 = snd (save m2 (csv_write_ok env))
                            in complete (out1\<lparr>ledger := Some m3,
                                          save_calls := save_calls out1 + 1\<rparr>)))))"

definition step_report :: "workflow_env \<Rightarrow> workflow_out \<Rightarrow> workflow_out" where
  \<comment> \<open>Step 6.\<close>
  "step_report env out =
     (if stop_requested env 6 then out
      else (let out1 = queue_message (State GENERATING_REPORT) out
            in case report_step env of
                 Inl e \<Rightarrow> raise_error e out1
               | Inr u \<Rightarrow> step_update_csv env out1))"

definition step_label :: "workflow_env \<Rightarrow> workflow_out \<Rightarrow> workflow_out" where
  \<comment> \<open>Step 5. A label that could not be generated is logged, nothing more.\<close>
  "step_label env out =
     (if stop_requested env 5 then out
      else (let out1 = queue_message (State GENERATING_LABEL) out
            in case label_step env of
                 Inl e \<Rightarrow> raise_error e out1
               | Inr ok \<Rightarrow> step_report env out1))"

definition step_verify :: "workflow_env \<Rightarrow> workflow_out \<Rightarrow> workflow_out" where
  \<comment> \<open>Step 4. \<open>Verifier.verify\<close> keeps its checks in a list, so when the verification did
      not pass, \<open>checks.items()\<close> raises before the workflow's own exception is built.\<close>
  "step_verify env out =
     (if stop_requested env 4 then out
      else (let out1 = queue_message (State VERIFYING) out
            in case reconnect_step env of
                 Inl e \<Rightarrow> raise_error e out1
               | Inr port \<Rightarrow>
                   if \<not> truthy port
                   then raise_error ''Serial port did not reappear after reboot'' out1
                   else (case verify_step env of
                           Inl e \<Rightarrow> raise_error e out1
                         | Inr r \<Rightarrow>
                             if v_status r \<noteq> V_PASSED
                             then raise_error (apostrophe @ ''list'' @ apostrophe
                                     @ '' object has no attribute '' @ apostrophe @ ''items''
                                     @ apostrophe) out1
                             else step_label env out1)))"

definition step_provision :: "workflow_env \<Rightarrow> workflow_out \<Rightarrow> workflow_out" where
  \<comment> \<open>Step 3.\<close>
  "step_provision env out =
     (if stop_requested env 3 then out
      else (let out1 = queue_message (State PROVISIONING) out
            in case provision_step env of
                 Inl e \<Rightarrow> raise_error e out1
               | Inr (ok, msg) \<Rightarrow>
                   if \<not> ok then raise_error (''Provisioning failed: '' @ msg) out1
                   else step_verify env out1))"

definition step_wait_serial :: "workflow_env \<Rightarrow> workflow_out \<Rightarrow> workflow_out" where
  \<comment> \<open>Step 2.\<close>
  "step_wait_serial env out =
     (if stop_requested env 2 then out
      else (let out1 = queue_message (State WAITING_FOR_SERIAL) out
            in case wait_step env of
                 Inl e \<Rightarrow> raise_error e out1
               | Inr port \<Rightarrow>
                   if \<not> truthy port
                   then raise_error ''Serial port did not appear after firmware upload'' out1
                   else step_provision env out1))"

definition run_workflow :: "workflow_env \<Rightarrow> CSVManager option \<Rightarrow> workflow_out" where
  \<comment> \<open>\<open>_run_workflow\<close>, from step 1 on. The second argument is \<open>self.csv_manager\<close>.\<close>
  "run_workflow env csv =
     (let out0 = \<lparr>queue = [], ledger = csv, save_calls = 0, ctx_upload_result = None\<rparr>
      in if stop_requested env 1 then out0
         else (let out1 = queue_message (State UPLOADING_FIRMWARE) out0
               in case upload_step env of
                    Inl e \<Rightarrow> raise_error e out1
                  | Inr r \<Rightarrow>
                      (let out2 = out1\<lparr>ctx_upload_result := Some r\<rparr>
                       in if \<not> success r
                          then raise_error (''Firmware upload failed: '' @ u_message r) out2
                          else step_wait_serial env out2)))"

fun process_message :: "WorkflowState \<Rightarrow> message \<Rightarrow> WorkflowState" where
  \<comment> \<open>\<open>_process_message_queue\<close> on one message of the worker: the state of the window
      afterwards. \<open>_on_workflow_complete\<close> ends in IDLE, \<open>_on_workflow_error\<close> in ERROR.\<close>
  "process_message s (State s') = s'"
| "process_message s (Complete ok) = IDLE"
| "process_message s (Error e) = ERROR"

fun states_entered :: "WorkflowState \<Rightarrow> message list \<Rightarrow> WorkflowState list" where
  \<comment> \<open>The states that the window enters while it works the queue off, in their order.\<close>
  "states_entered s [] = []"
| "states_entered s (msg # msgs) = process_message s msg # states_entered (process_message s msg) msgs"

definition final_state :: "WorkflowState \<Rightarrow> message list \<Rightarrow> WorkflowState" where
  "final_state s msgs = foldl process_message s msgs"

definition failed_upload_env :: workflow_env where
  \<comment> \<open>The upload finds no device; every later step would succeed.\<close>
  "failed_upload_env =
     \<lparr> stop_requested = (\<lambda>k. False),
       upload_step = Inr \<lparr>u_status = NO_DEVICE,
                          u_message = ''No RP2040 device found in BOOTSEL mode'',
                          exit_code = 1, stdout = [], stderr = []\<rparr>,
       wait_step = Inr (Some ''COM7''),
       provision_step = Inr (True, ''done''),
       reconnect_step = Inr (Some ''COM7''),
       verify_step = Inr \<lparr>v_status = V_PASSED, v_message = ''All 4 checks passed'',
                          checks = [], sysinfo = [], netinfo = []\<rparr>,
       label_step = Inr True,
       report_step = Inr (),
       csv_write_ok = True,
       now = ''2024-02-02 09:00:00'',
       ctx_serial_number = ''SN-001'',
       ctx_firmware_version = ''1.1.0'',
       ctx_hardware_version = ''A'',
       ctx_region_code = ''EU'',
       ctx_batch_id = ''B1'',
       ctx_notes = [] \<rparr>"

definition later_states :: "WorkflowState set" where
  \<comment> \<open>The states that follow the upload in a run that succeeds.\<close>
  "later_states = {WAITING_FOR_SERIAL, PROVISIONING, VERIFYING, GENERATING_LABEL,
     GENERATING_REPORT, UPDATING_CSV, COMPLETED}"

section \<open>Serial markers in UF2 files: \<open>FlashApp/core/uf2_tools.py\<close>\<close>

text \<open>
  A \<open>UF2File\<close> object: the bytes of the file at \<open>uf2_path\<close> (\<open>None\<close> when the file cannot
  be read) and the attribute \<open>data\<close> (\<open>None\<close> until the file was read).
\<close>

record UF2File =
  uf2_disk :: "string option"
  uf2_data :: "string option"

definition read_file :: "UF2File \<Rightarrow> bool \<times> UF2File" where
  \<comment> \<open>\<open>UF2File.read\<close>\<close>
  "read_file uf =
     (case uf2_disk uf of
        None \<Rightarrow> (False, uf)
      | Some bytes \<Rightarrow> (True, uf\<lparr>uf2_data := Some bytes\<rparr>))"

definition write_file :: "UF2File \<Rightarrow> bool \<Rightarrow> UF2File option" where
  \<comment> \<open>\<open>UF2File.write()\<close> to the original path; the second argument tells whether the file can be
      written. \<open>None\<close> is the source's \<open>None\<close>: nothing was written.\<close>
  "write_file uf write_ok =
     (case uf2_data uf of
        None \<Rightarrow> None
      | Some bytes \<Rightarrow> if write_ok then Some (uf\<lparr>uf2_disk := Some bytes\<rparr>) else None)"

definition interval :: nat where
  "interval = 10 * 1024"

function py_range :: "nat \<Rightarrow> nat \<Rightarrow> nat \<Rightarrow> nat list" where
  \<comment> \<open>\<open>list(range(start, stop, step))\<close> for a positive step.\<close>
  "py_range start stop step =
     (if step = 0 \<or> stop \<le> start then [] else start # py_range (start + step) stop step)"
  by pat_completeness auto
termination
  by (relation "measure (\<lambda>(start, stop, step). stop - start)") auto

declare py_range.simps [simp del]

definition insert_at :: "nat \<Rightarrow> 'a list \<Rightarrow> 'a list \<Rightarrow> 'a list" where
  \<comment> \<open>\<open>data[i:i] = marker\<close>\<close>
  "insert_at i marker bytes = take i bytes @ marker @ drop i bytes"

definition insertion_points :: "nat \<Rightarrow> nat \<Rightarrow> nat list" where
  \<comment> \<open>\<open>list(range(interval, original_size, interval))\<close>\<close>
  "insertion_points k original_size = py_range k original_size k"

definition insert_markers :: "nat \<Rightarrow> string \<Rightarrow> string \<Rightarrow> string" where
  \<comment> \<open>The body of the \<open>try\<close> block from \<open>self.data.extend\<close> on, for an interval \<open>k\<close>: the
      marker is appended, then inserted at every insertion point, the highest first.\<close>
  "insert_markers k encoded_marker bytes =
     (let extended = bytes @ encoded_marker;
          original_size = length extended - length encoded_marker
      in fold (\<lambda>i d. insert_at i encoded_marker d)
              (rev (insertion_points k original_size)) extended)"

definition is_ascii :: "char \<Rightarrow> bool" where
  "is_ascii c = ((of_char c :: nat) < 128)"

definition encode_ascii :: "string \<Rightarrow> py_error + string" where
  \<comment> \<open>\<open>s.encode('ascii')\<close> and, read the other way, \<open>b.decode('ascii')\<close>\<close>
  "encode_ascii s = (if list_all is_ascii s then Inr s else Inl UnicodeEncodeError)"

definition marker_text :: "string \<Rightarrow> string" where
  \<comment> \<open>\<open>f"DEVICE_ID:{serial_number}:END"\<close>\<close>
  "marker_text serial = ''DEVICE_ID:'' @ serial @ '':END''"

definition ensure_data :: "UF2File \<Rightarrow> UF2File option" where
  \<comment> \<open>\<open>if not self.data: if not self.read(): return False\<close>: the object that the method
      goes on with, if it goes on. An empty \<open>data\<close> is read again.\<close>
  "ensure_data uf =
     (if uf2_data uf = None \<or> uf2_data uf = Some []
      then (case read_file uf of (False, uf') \<Rightarrow> None | (True, uf') \<Rightarrow> Some uf')
      else Some uf)"

definition embed_serial_number :: "UF2File \<Rightarrow> string \<Rightarrow> bool \<times> UF2File" where
  "embed_serial_number uf serial =
     (if serial = [] then (False, uf)
      else (case ensure_data uf of
              None \<Rightarrow> (False, uf)
            | Some uf1 \<Rightarrow>
                (case encode_ascii (marker_text serial) of
                   Inl e \<Rightarrow> (False, uf1)
                 | Inr encoded_marker \<Rightarrow>
                     (case uf2_data uf1 of
                        None \<Rightarrow> (False, uf1)
                      | Some bytes \<Rightarrow>
                          (True, uf1\<lparr>uf2_data :=
                                  Some (insert_markers interval encoded_marker bytes)\<rparr>)))))"

definition match_marker :: "string \<Rightarrow> string option" where
  \<comment> \<open>\<open>DEVICE_ID:([^:]+):END\<close> at the start of a text: group 1. The greedy group takes
      every byte up to the next colon; a shorter group would be followed by a byte that
      is not a colon, so nothing is gained by giving bytes back.\<close>
  "match_marker s =
     (if prefix ''DEVICE_ID:'' s
      then (let r = drop 10 s;
                g = takeWhile (\<lambda>c. c \<noteq> CHR '':'') r;
                t = dropWhile (\<lambda>c. c \<noteq> CHR '':'') r
            in if g \<noteq> [] \<and> prefix '':END'' t then Some g else None)
      else None)"

definition extract_serial_from_uf2 :: "string option \<Rightarrow> string option" where
  \<comment> \<open>The argument is the content of the file at the path, \<open>None\<close> when it cannot be
      read. A group that does not decode as ASCII raises, which is caught.\<close>
  "extract_serial_from_uf2 file_bytes =
     (case file_bytes of
        None \<Rightarrow> None
      | Some bytes \<Rightarrow>
          (case re_search match_marker bytes of
             None \<Rightarrow> None
           | Some g \<Rightarrow> (case encode_ascii g of Inl e \<Rightarrow> None | Inr serial \<Rightarrow> Some serial)))"

definition modify_uf2_with_serial :: "UF2File \<Rightarrow> string \<Rightarrow> bool \<Rightarrow> UF2File" where
  \<comment> \<open>\<open>modify_uf2_with_serial\<close>: the object after reading, embedding and writing; when a
      step fails, the file on disk stays as it was.\<close>
  "modify_uf2_with_serial uf serial write_ok =
     (if serial = [] then uf
      else (case read_file uf of
              (False, uf1) \<Rightarrow> uf1
            | (True, uf1) \<Rightarrow>
                (case embed_serial_number uf1 serial of
                   (False, uf2) \<Rightarrow> uf2
                 | (True, uf2) \<Rightarrow>
                     (case write_file uf2 write_ok of None \<Rightarrow> uf2 | Some uf3 \<Rightarrow> uf3))))"

function chunked_with :: "nat \<Rightarrow> 'a list \<Rightarrow> 'a list \<Rightarrow> 'a list" where
  \<comment> \<open>The bytes cut into pieces of \<open>k\<close> bytes (the last one may be shorter), each piece
      followed by a copy of the marker.\<close>
  "chunked_with k marker bytes =
     (if k = 0 \<or> length bytes \<le> k then bytes @ marker
      else take k bytes @ marker @ chunked_with k marker (drop k bytes))"
  by pat_completeness auto
termination
  by (relation "measure (\<lambda>(k, marker, bytes). length bytes)") auto

declare chunked_with.simps [simp del]

definition marker_count :: "nat \<Rightarrow> nat" where
  \<comment> \<open>\<open>len(insertion_points) + 1\<close>, the number of copies that the source reports.\<close>
  "marker_count original_size = length (insertion_points interval original_size) + 1"

definition empty_uf2 :: UF2File where
  \<comment> \<open>An object for an empty file that was not read yet.\<close>
  "empty_uf2 = \<lparr>uf2_disk = Some [], uf2_data = None\<rparr>"

definition small_uf2 :: UF2File where
  \<comment> \<open>An object for a file of five bytes that was not read yet.\<close>
  "small_uf2 = \<lparr>uf2_disk = Some ''UF2 0'', uf2_data = None\<rparr>"

definition marked_uf2 :: UF2File where
  \<comment> \<open>An object for a file that already holds a marker.\<close>
  "marked_uf2 = \<lparr>uf2_disk = Some ''UF2 DEVICE_ID:SN-001:END'', uf2_data = None\<rparr>"

section \<open>Properties of the ledger\<close>

lemma py_strip_Nil_iff: "py_strip s = [] \<longleftrightarrow> list_all py_isspace s"
proof (cases "dropWhile py_isspace s = []")
  case True
  have "py_strip s = []"
    unfolding py_strip_def True by simp
  moreover from True have "list_all py_isspace s"
    by (simp add: dropWhile_eq_Nil_conv list_all_iff)
  ultimately show ?thesis by simp
next
  case False
  then have "hd (dropWhile py_isspace s) \<in> set (dropWhile py_isspace s)"
    and "\<not> py_isspace (hd (dropWhile py_isspace s))"
    by (simp_all add: hd_dropWhile)
  then have "py_strip s \<noteq> []"
    unfolding py_strip_def by (auto simp: dropWhile_eq_Nil_conv)
  moreover from False have "\<not> list_all py_isspace s"
    by (simp add: dropWhile_eq_Nil_conv list_all_iff)
  ultimately show ?thesis by simp
qed

lemma is_programmed_blank:
  "is_programmed r = Inr p \<Longrightarrow> p = (\<not> blank_cell (date_programmed r))"
  by (auto simp: is_programmed_def blank_cell_def py_strip_Nil_iff split: option.splits)

lemma first_unprogrammed_Some:
  "first_unprogrammed k rs = Inr (Some i) \<Longrightarrow>
     k \<le> i \<and> i - k < length rs \<and> blank_cell (date_programmed (rs ! (i - k)))
       \<and> (\<forall>j < i - k. \<not> blank_cell (date_programmed (rs ! j)))"
proof (induction rs arbitrary: k)
  case Nil
  then show ?case by simp
next
  case (Cons r rs)
  show ?case
  proof (cases "is_programmed r")
    case (Inl e)
    with Cons.prems show ?thesis by simp
  next
    case (Inr b)
    note b = is_programmed_blank [OF Inr]
    show ?thesis
    proof (cases b)
      case False
      with Cons.prems Inr b show ?thesis by simp
    next
      case True
      with Cons.prems Inr have "first_unprogrammed (Suc k) rs = Inr (Some i)" by simp
      from Cons.IH [OF this] have ih: "Suc k \<le> i" "i - Suc k < length rs"
        "blank_cell (date_programmed (rs ! (i - Suc k)))"
        "\<forall>j < i - Suc k. \<not> blank_cell (date_programmed (rs ! j))" by auto
      have eq: "i - k = Suc (i - Suc k)" using ih(1) by arith
      show ?thesis using ih True b unfolding eq by (auto simp: less_Suc_eq_0_disj)
    qed
  qed
qed

lemma first_unprogrammed_None:
  "first_unprogrammed k rs = Inr None \<Longrightarrow>
     list_all (\<lambda>r. \<not> blank_cell (date_programmed r)) rs"
proof (induction rs arbitrary: k)
  case Nil
  then show ?case by simp
next
  case (Cons r rs)
  then show ?case
    by (auto split: sum.splits if_splits dest: is_programmed_blank)
qed

text \<open>
  C10. After a successful \<open>load\<close> the selection is the first row whose \<open>date_programmed\<close>
  is empty or whitespace only; when there is no such row (every row is programmed, or there
  are no rows) nothing is selected. The manager that results is the same whatever manager
  the file was loaded into, so no earlier selection survives.
\<close>

theorem load_selects_first_unprogrammed:
  assumes "load m p src = (True, m')"
  shows "(case selected_index m' of
            Some i \<Rightarrow> i < length (rows m') \<and> blank_cell (date_programmed (rows m' ! i))
                      \<and> (\<forall>j < i. \<not> blank_cell (date_programmed (rows m' ! j)))
                      \<and> selected_row m' = Some (rows m' ! i)
          | None \<Rightarrow> list_all (\<lambda>r. \<not> blank_cell (date_programmed r)) (rows m')
                      \<and> selected_row m' = None)
         \<and> load m0 p src = (True, m')"
proof -
  from assms obtain fns data where fl: "src = Content fns data False"
    by (cases src) (auto simp: load_def Let_def split: if_splits)
  define m2 where "m2 = m\<lparr>rows := map from_dict data,
      all_columns := add_columns fns CSV_COLUMNS, path := Some p, modified := False,
      selected_index := None\<rparr>"
  define n2 where "n2 = m0\<lparr>rows := map from_dict data,
      all_columns := add_columns fns CSV_COLUMNS, path := Some p, modified := False,
      selected_index := None\<rparr>"
  have same: "n2 = m2" unfolding n2_def m2_def by simp
  from assms fl obtain found where sel: "select_next_unprogrammed m2 = Inr (found, m')"
    by (auto simp: load_def Let_def m2_def split: sum.splits prod.splits)
  have l0: "load m0 p src = (True, m')"
    using sel same fl by (simp add: load_def Let_def n2_def [symmetric])
  have si2: "selected_index m2 = None"
    by (simp add: m2_def)
  show ?thesis
  proof (cases "first_unprogrammed 0 (rows m2)")
    case (Inl e)
    with sel show ?thesis by (simp add: select_next_unprogrammed_def)
  next
    case (Inr r)
    show ?thesis
    proof (cases r)
      case None
      with Inr sel have "m' = m2" by (simp add: select_next_unprogrammed_def)
      with first_unprogrammed_None [of 0 "rows m2"] Inr None si2 l0 show ?thesis
        by (simp add: selected_row_def)
    next
      case (Some i)
      from first_unprogrammed_Some [of 0 "rows m2" i] Inr Some
      have i: "i < length (rows m2)" "blank_cell (date_programmed (rows m2 ! i))"
        "\<forall>j < i. \<not> blank_cell (date_programmed (rows m2 ! j))" by auto
      from Inr Some sel i(1) si2 have "m' = m2\<lparr>selected_index := Some i\<rparr>"
        by (simp add: select_next_unprogrammed_def select_row_def)
      with i l0 show ?thesis by (simp add: selected_row_def)
    qed
  qed
qed

theorem load_selects_first_unprogrammed_witness:
  "fst (load new_manager ''ledger.csv'' ledger_file)
   \<and> selected_index (snd (load new_manager ''ledger.csv'' ledger_file)) = Some 1
   \<and> load (new_manager\<lparr>selected_index := Some 2\<rparr>) ''ledger.csv'' ledger_file
       = load new_manager ''ledger.csv'' ledger_file"
proof -
  have ok: "fst (load new_manager ''ledger.csv'' ledger_file)" by code_simp
  then have h: "load new_manager ''ledger.csv'' ledger_file
      = (True, snd (load new_manager ''ledger.csv'' ledger_file))"
    by (simp add: prod_eq_iff)
  have s: "selected_index (snd (load new_manager ''ledger.csv'' ledger_file)) = Some 1"
    by code_simp
  from load_selects_first_unprogrammed [OF h, of "new_manager\<lparr>selected_index := Some 2\<rparr>"]
    ok s h
  show ?thesis by simp
qed

text \<open>
  C1. The ledger \<open>programmed_ledger\<close> holds one programmed row without reprogram columns.
  Updating it once archives the prior date and firmware under \<open>reprogram_1_*\<close>, and
  \<open>reprogram_count\<close> of the row is then 3, one for each of the three columns, not 1.
  Updating it once more therefore adds the columns \<open>reprogram_4_*\<close>, not \<open>reprogram_2_*\<close>.
\<close>

theorem reprogram_count_counts_columns:
  "(case reprogram_once programmed_ledger ''1.1.0'' ''2024-02-02 09:00:00'' of
      Inl e \<Rightarrow> False
    | Inr (ok1, m1) \<Rightarrow>
        ok1
        \<and> extra_columns (rows m1 ! 0) =
            [(''reprogram_1_date'', Some ''2024-01-01 08:00:00''),
             (''reprogram_1_firmware'', Some ''1.0.0''),
             (''reprogram_1_reason'', Some ''Reprogrammed (1)'')]
        \<and> reprogram_count (rows m1 ! 0) = 3
        \<and> (case reprogram_once m1 ''1.2.0'' ''2024-03-03 10:00:00'' of
              Inl e \<Rightarrow> False
            | Inr (ok2, m2) \<Rightarrow>
                ok2
                \<and> all_columns m2 = CSV_COLUMNS @
                     [''reprogram_1_date'', ''reprogram_1_firmware'', ''reprogram_1_reason'',
                      ''reprogram_4_date'', ''reprogram_4_firmware'', ''reprogram_4_reason'']
                \<and> map fst (extra_columns (rows m2 ! 0)) =
                     [''reprogram_1_date'', ''reprogram_1_firmware'', ''reprogram_1_reason'',
                      ''reprogram_4_date'', ''reprogram_4_firmware'', ''reprogram_4_reason'']
                \<and> reprogram_count (rows m2 ! 0) = 6))"
  by code_simp

section \<open>Properties of the verification verdict\<close>

lemma length_add_check: "length (checks (snd (add_check r nm e a msg))) = Suc (length (checks r))"
  by (simp add: add_check_def Let_def)

lemma length_run_checks: "length (checks (run_checks r si serial region fw hw)) = length (checks r) + 4"
  by (simp add: run_checks_def verify_serial_number_def verify_region_def
      verify_firmware_version_def verify_hardware_def Let_def length_add_check)

lemma failed_count_0_iff: "failed_count r = 0 \<longleftrightarrow> list_all passed (checks r)"
  by (simp add: failed_count_def list_all_iff filter_empty_conv)

lemma passed_count_0_iff: "passed_count r = 0 \<longleftrightarrow> list_all (\<lambda>c. \<not> passed c) (checks r)"
  by (simp add: passed_count_def list_all_iff filter_empty_conv)

lemma count_sum: "passed_count r + failed_count r = length (checks r)"
  unfolding passed_count_def failed_count_def
  by (simp add: sum_length_filter_compl)

lemma checks_overall_status: "checks (overall_status r) = checks r"
  by (simp add: overall_status_def)


lemma str_nat_4: "str_nat 4 = ''4''"
  by code_simp

text \<open>
  C6, as amended. When \<open>SYSINFO\<close> was obtained (it is not empty), \<open>verify\<close> records exactly
  four checks; the status is PASSED iff every check passed, FAILED iff none passed, and
  PARTIAL otherwise; the message is \<open>All 4 checks passed\<close>, \<open>All 4 checks failed\<close>, or gives
  the number of passed and of failed checks, which add up to four.
\<close>

theorem verify_status_of_checks:
  assumes "si \<noteq> []" and "r = verify (Some si) ni serial region fw hw"
  shows "length (checks r) = 4
       \<and> (v_status r = V_PASSED \<longleftrightarrow> list_all passed (checks r))
       \<and> (v_status r = V_FAILED \<longleftrightarrow> list_all (\<lambda>c. \<not> passed c) (checks r))
       \<and> (v_status r = V_PARTIAL \<longleftrightarrow>
            \<not> list_all passed (checks r) \<and> \<not> list_all (\<lambda>c. \<not> passed c) (checks r))
       \<and> passed_count r + failed_count r = 4
       \<and> v_message r =
            (if v_status r = V_PASSED then ''All 4 checks passed''
             else if v_status r = V_FAILED then ''All 4 checks failed''
             else str_nat (passed_count r) @ '' passed, '' @ str_nat (failed_count r)
                  @ '' failed'')"
proof -
  define r2 where "r2 = (case ni of
        None \<Rightarrow> \<lparr>v_status = V_ERROR, v_message = [], checks = [], sysinfo = si, netinfo = []\<rparr>
      | Some n \<Rightarrow> if n = []
          then \<lparr>v_status = V_ERROR, v_message = [], checks = [], sysinfo = si, netinfo = []\<rparr>
          else \<lparr>v_status = V_ERROR, v_message = [], checks = [], sysinfo = si, netinfo = n\<rparr>)"
  define q where "q = run_checks r2 si serial region fw hw"
  have r2: "checks r2 = []"
    by (simp add: r2_def split: option.splits)
  have r: "r = overall_status q"
    using assms by (simp add: verify_def Let_def q_def r2_def split: option.splits)
  have len: "length (checks q) = 4"
    by (simp add: q_def length_run_checks r2)
  have sum: "passed_count q + failed_count q = 4"
    by (simp add: count_sum len)
  have pc: "passed_count r = passed_count q" and fc: "failed_count r = failed_count q"
    by (simp_all add: r passed_count_def failed_count_def checks_overall_status)
  have cr: "checks r = checks q"
    by (simp add: r checks_overall_status)
  have f0: "failed_count q = 0 \<longleftrightarrow> list_all passed (checks q)"
    by (rule failed_count_0_iff)
  have p0: "passed_count q = 0 \<longleftrightarrow> list_all (\<lambda>c. \<not> passed c) (checks q)"
    by (rule passed_count_0_iff)
  consider (all) "failed_count q = 0" "passed_count q = 4"
    | (none) "passed_count q = 0" "failed_count q = 4"
    | (some) "failed_count q \<noteq> 0" "passed_count q \<noteq> 0"
    using sum by arith
  then show ?thesis
  proof cases
    case all
    then have "v_status r = V_PASSED" "v_message r = ''All 4 checks passed''"
      by (simp_all add: r overall_status_def str_nat_4)
    with all f0 p0 show ?thesis by (simp add: cr pc fc len)
  next
    case none
    then have "v_status r = V_FAILED" "v_message r = ''All 4 checks failed''"
      by (simp_all add: r overall_status_def str_nat_4)
    with none f0 p0 show ?thesis by (simp add: cr pc fc len)
  next
    case some
    then have "v_status r = V_PARTIAL"
      "v_message r = str_nat (passed_count q) @ '' passed, '' @ str_nat (failed_count q)
                  @ '' failed''"
      by (simp_all add: r overall_status_def)
    with some f0 p0 sum show ?thesis by (simp add: cr pc fc len)
  qed
qed

theorem verify_status_of_checks_witness:
  "sysinfo_example \<noteq> []
   \<and> v_status (verify (Some sysinfo_example) None ''SN-001'' ''EU'' ''1.0.0'' ''A'') = V_PARTIAL
   \<and> v_message (verify (Some sysinfo_example) None ''SN-001'' ''EU'' ''1.0.0'' ''A'')
       = ''2 passed, 2 failed''
   \<and> length (checks (verify (Some sysinfo_example) None ''SN-001'' ''EU'' ''1.0.0'' ''A'')) = 4"
proof -
  have h: "sysinfo_example \<noteq> []" by (simp add: sysinfo_example_def)
  have s: "v_status (verify (Some sysinfo_example) None ''SN-001'' ''EU'' ''1.0.0'' ''A'') = V_PARTIAL"
    by code_simp
  have m: "v_message (verify (Some sysinfo_example) None ''SN-001'' ''EU'' ''1.0.0'' ''A'')
       = ''2 passed, 2 failed''"
    by code_simp
  from verify_status_of_checks [OF h refl, of None "''SN-001''" "''EU''" "''1.0.0''" "''A''"] h s m
  show ?thesis by simp
qed

text \<open>
  C6 as stated fails when \<open>SYSINFO\<close> cannot be obtained: \<open>verify\<close> returns at once, with no
  check recorded and the status ERROR, which is none of PASSED, FAILED and PARTIAL, although
  every recorded check (there is none) passed.
\<close>

theorem verify_without_sysinfo_counterexample:
  "length (checks (verify None None ''SN-001'' ''EU'' ''1.0.0'' ''A'')) \<noteq> 4
   \<and> list_all passed (checks (verify None None ''SN-001'' ''EU'' ''1.0.0'' ''A''))
   \<and> v_status (verify None None ''SN-001'' ''EU'' ''1.0.0'' ''A'') \<noteq> V_PASSED
   \<and> v_status (verify None None ''SN-001'' ''EU'' ''1.0.0'' ''A'') = V_ERROR"
  by (simp add: verify_def)

section \<open>Properties of the firmware upload\<close>

lemma verify_firmware_invalid: "fst (verify_firmware fi p) \<longleftrightarrow> \<not> invalid_firmware fi"
  by (simp add: verify_firmware_def invalid_firmware_def Let_def)

lemma upload_never_invalid_firmware: "u_status (fst (upload env p)) \<noteq> INVALID_FIRMWARE"
  by (simp add: upload_def Let_def split: prod.splits bool.splits run_outcome.splits)

text \<open>
  C9, as amended. When the flashing tool is installed and the firmware path fails validation
  (missing, not a regular file, extension outside \<open>.elf .hex .uf2\<close>, smaller than 100
  bytes or larger than 16 MiB), \<open>upload\<close> returns status FIRMWARE_NOT_FOUND, which is not a
  success, and hands no command to \<open>subprocess.run\<close>. For no input at all does \<open>upload\<close>
  return INVALID_FIRMWARE.
\<close>

theorem upload_rejects_invalid_firmware:
  assumes "picotool_present env" and "invalid_firmware (firmware env)"
  shows "u_status (fst (upload env p)) = FIRMWARE_NOT_FOUND
       \<and> \<not> success (fst (upload env p))
       \<and> snd (upload env p) = []
       \<and> u_status (fst (upload env' p')) \<noteq> INVALID_FIRMWARE"
proof -
  from assms(2) have "\<not> fst (verify_firmware (firmware env) p)"
    by (simp add: verify_firmware_invalid)
  then obtain msg where "verify_firmware (firmware env) p = (False, msg)"
    by (cases "verify_firmware (firmware env) p") simp
  with assms(1) have "upload env p = (\<lparr>u_status = FIRMWARE_NOT_FOUND, u_message = msg,
                  exit_code = 0, stdout = [], stderr = []\<rparr>, [])"
    by (simp add: upload_def)
  then show ?thesis
    by (simp add: success_def upload_never_invalid_firmware)
qed

theorem upload_rejects_invalid_firmware_witness:
  "picotool_present text_file_env \<and> invalid_firmware (firmware text_file_env)
   \<and> u_status (fst (upload text_file_env ''notes.TXT'')) = FIRMWARE_NOT_FOUND
   \<and> snd (upload text_file_env ''notes.TXT'') = []"
proof -
  have a: "picotool_present text_file_env" by (simp add: text_file_env_def)
  have b: "invalid_firmware (firmware text_file_env)" by code_simp
  from upload_rejects_invalid_firmware [OF a b, of "''notes.TXT''"] a b
  show ?thesis by simp
qed

text \<open>
  C9 as stated fails when the flashing tool itself is missing: \<open>upload\<close> looks for the tool
  before it validates the firmware and returns PICOTOOL_NOT_FOUND, also for a firmware path
  that fails validation.
\<close>

theorem upload_without_picotool_counterexample:
  "invalid_firmware (firmware no_tool_env)
   \<and> u_status (fst (upload no_tool_env ''fw.uf2'')) = PICOTOOL_NOT_FOUND
   \<and> u_status (fst (upload no_tool_env ''fw.uf2'')) \<noteq> FIRMWARE_NOT_FOUND"
  by (simp add: no_tool_env_def invalid_firmware_def upload_def)

section \<open>Properties of the serial-number header\<close>

lemma numeric_version_eq:
  "numeric_version fv = filter py_isdigit fv @ replicate (3 - length (filter py_isdigit fv)) (CHR ''0'')"
  by (simp add: numeric_version_def py_ljust_def Let_def)

text \<open>
  C4, as amended. The numeric version is the digits of the firmware version in their order,
  followed by as many zeros as are needed to reach three characters: the padding goes to the
  right of the digits. When \<open>generate_serial_header\<close> succeeds, what it writes is the template
  with the serial-number placeholder, the firmware-version placeholder and the
  numeric-version placeholder replaced, in this order, the last one by that numeric version.
\<close>

theorem numeric_version_right_padded:
  assumes "generate_serial_header t write_raises sn fv = (True, w)"
  shows "numeric_version fv =
           filter py_isdigit fv @ replicate (3 - length (filter py_isdigit fv)) (CHR ''0'')
       \<and> length (numeric_version fv) = max 3 (length (filter py_isdigit fv))
       \<and> (\<exists>content. t = T_Content content
            \<and> w = Some (py_replace ''NUMERIC_VERSION_PLACEHOLDER'' (numeric_version fv)
                    (py_replace ''FIRMWARE_VERSION_PLACEHOLDER'' fv
                      (py_replace ''SERIAL_NUMBER_PLACEHOLDER'' sn content))))"
proof -
  have "length (numeric_version fv) = max 3 (length (filter py_isdigit fv))"
    by (simp add: numeric_version_eq)
  moreover from assms have "\<exists>content. t = T_Content content
            \<and> w = Some (py_replace ''NUMERIC_VERSION_PLACEHOLDER'' (numeric_version fv)
                    (py_replace ''FIRMWARE_VERSION_PLACEHOLDER'' fv
                      (py_replace ''SERIAL_NUMBER_PLACEHOLDER'' sn content)))"
    by (cases t) (auto simp: generate_serial_header_def Let_def split: if_splits)
  ultimately show ?thesis
    using numeric_version_eq [of fv] by blast
qed

theorem numeric_version_right_padded_witness:
  "generate_serial_header (T_Content header_template) False ''SN-001'' ''1.2''
     = (True, Some ''SN=SN-001 FW=1.2 NUM=120'')
   \<and> numeric_version ''1.2'' = ''120''"
proof -
  have h: "generate_serial_header (T_Content header_template) False ''SN-001'' ''1.2''
     = (True, Some ''SN=SN-001 FW=1.2 NUM=120'')"
    by code_simp
  have n: "numeric_version ''1.2'' = ''120''"
    by code_simp
  from numeric_version_right_padded [OF h] h n show ?thesis by simp
qed

text \<open>
  C4 as stated fails for a version with fewer than three digits: for \<open>1.2\<close> the source
  yields \<open>120\<close>, whereas padding on the left yields \<open>012\<close>.
\<close>

theorem numeric_version_left_padding_counterexample:
  "numeric_version ''1.2'' = ''120''
   \<and> left_padded_version ''1.2'' = ''012''
   \<and> generate_serial_header (T_Content ''NUMERIC_VERSION_PLACEHOLDER'') False ''SN-001'' ''1.2''
       \<noteq> (True, Some (left_padded_version ''1.2''))"
  by code_simp

section \<open>Properties of the label size\<close>

lemma label_px_width: "label_px LABEL_WIDTH_MM LABEL_DPI = 885"
  by (simp add: label_px_def py_int_def LABEL_WIDTH_MM_def LABEL_DPI_def floor_eq_iff)

lemma label_px_height: "label_px LABEL_HEIGHT_MM LABEL_DPI = 590"
  by (simp add: label_px_def py_int_def LABEL_HEIGHT_MM_def LABEL_DPI_def floor_eq_iff)

lemma label_px_tolerance:
  assumes "\<bar>e\<bar> \<le> 1 / 10"
  shows "py_int (LABEL_WIDTH_MM / (254 / 10) * LABEL_DPI + e) = 885"
    and "py_int (LABEL_HEIGHT_MM / (254 / 10) * LABEL_DPI + e) = 590"
proof -
  from assms have e: "- (1 / 10) \<le> e" "e \<le> 1 / 10"
    by linarith+
  have w: "LABEL_WIDTH_MM / (254 / 10) * LABEL_DPI = 112500 / 127"
    and h: "LABEL_HEIGHT_MM / (254 / 10) * LABEL_DPI = 75000 / 127"
    by (simp_all add: LABEL_WIDTH_MM_def LABEL_HEIGHT_MM_def LABEL_DPI_def)
  have "885 \<le> 112500 / 127 + e" "112500 / 127 + e < 886"
    "590 \<le> 75000 / 127 + e" "75000 / 127 + e < 591"
    using e by linarith+
  then show "py_int (LABEL_WIDTH_MM / (254 / 10) * LABEL_DPI + e) = 885"
    and "py_int (LABEL_HEIGHT_MM / (254 / 10) * LABEL_DPI + e) = 590"
    unfolding w h py_int_def by (simp_all add: floor_eq_iff)
qed

lemma rounded_px_width: "rounded_px LABEL_WIDTH_MM LABEL_DPI = 886"
  by (simp add: rounded_px_def LABEL_WIDTH_MM_def LABEL_DPI_def round_def floor_eq_iff)

lemma rounded_px_height: "rounded_px LABEL_HEIGHT_MM LABEL_DPI = 591"
  by (simp add: rounded_px_def LABEL_HEIGHT_MM_def LABEL_DPI_def round_def floor_eq_iff)

text \<open>
  C3, as amended. A label that is generated successfully, and whose resize step did not
  raise, is 885 by 590 pixels, whatever the size the template rendered to: the source
  cuts the fraction of \<open>75 / 25.4 * 300\<close> and of \<open>50 / 25.4 * 300\<close> off with \<open>int\<close>.
\<close>

theorem label_size_truncated:
  assumes "generate_label env = (L_SUCCESS, Some sz)" and "\<not> resize_raises env"
  shows "sz = (885, 590)"
  using assms
  by (auto simp: generate_label_def resize_image_def Let_def label_px_width label_px_height
      split: if_splits option.splits)

theorem label_size_truncated_witness:
  "generate_label label_env_ok = (L_SUCCESS, Some (885, 590)) \<and> \<not> resize_raises label_env_ok"
proof -
  have h: "generate_label label_env_ok = (L_SUCCESS, Some (885, 590))"
    by (simp add: generate_label_def label_env_ok_def resize_image_def Let_def
        label_px_width label_px_height)
  have r: "\<not> resize_raises label_env_ok"
    by (simp add: label_env_ok_def)
  from label_size_truncated [OF h r] h r show ?thesis by simp
qed

text \<open>
  C3 as stated fails: with every library call succeeding the label is 885 by 590 pixels,
  not the 886 by 591 that rounding gives; and when the image library raises during the
  resize, the failure is only logged and the label keeps the size it was rendered at.
\<close>

theorem label_size_rounded_counterexample:
  "generate_label label_env_ok = (L_SUCCESS, Some (885, 590))
   \<and> (rounded_px LABEL_WIDTH_MM LABEL_DPI, rounded_px LABEL_HEIGHT_MM LABEL_DPI) = (886, 591)
   \<and> generate_label label_env_resize_fails = (L_SUCCESS, Some (1000, 700))"
  by (simp add: generate_label_def label_env_ok_def label_env_resize_fails_def
      resize_image_def Let_def label_px_width label_px_height rounded_px_width
      rounded_px_height)

section \<open>Properties of the deployment\<close>

lemma monitor_loop_verified:
  "monitor_loop target ds df es = (True, ds', df') \<Longrightarrow> \<not> (truthy target \<and> ds' \<noteq> target)"
  by (induction target ds df es rule: monitor_loop.induct)
     (auto simp: Let_def split: if_splits)

lemma monitor_serial_port_verified:
  "monitor_serial_port po es target = (True, ds', df') \<Longrightarrow> \<not> (truthy target \<and> ds' \<noteq> target)"
  by (auto simp: monitor_serial_port_def split: if_splits dest: monitor_loop_verified)

text \<open>
  C8. Let a flash succeed (the build has a UF2 file and the ELF flash or the UF2 flash
  succeeds), with verification on and an expected serial number given. If a new port
  appears and the monitor detects a serial number other than the expected one,
  \<open>deploy_firmware\<close> returns the reprogram flag: failure without the flag, success with it.
  If no new port appears, it returns success. If the monitor ends without verifying (the
  read times out or raises, or the port cannot be opened) and has no contradicting serial
  number, it returns success.
\<close>

theorem deploy_mismatch_fails_silence_succeeds:
  assumes "flashed env" and "truthy serial"
  shows "(truthy (new_port env)
          \<and> monitor_serial_port (port_opens env) (boot_events env) serial = (v, ds, df)
          \<and> truthy ds \<and> ds \<noteq> serial
          \<longrightarrow> deploy_firmware env serial True reprogram = reprogram)
       \<and> (\<not> truthy (new_port env) \<longrightarrow> deploy_firmware env serial True reprogram)
       \<and> (monitor_serial_port (port_opens env) (boot_events env) serial = (False, ds, df)
          \<and> \<not> (truthy ds \<and> ds \<noteq> serial)
          \<longrightarrow> deploy_firmware env serial True reprogram)"
proof -
  from assms(1) have d: "deploy_firmware env serial True reprogram = verify_flashed env serial reprogram"
    by (auto simp: flashed_def deploy_firmware_def)
  have 1: "deploy_firmware env serial True reprogram = reprogram"
    if "truthy (new_port env)"
      and m: "monitor_serial_port (port_opens env) (boot_events env) serial = (v, ds, df)"
      and "truthy ds" and "ds \<noteq> serial"
  proof -
    from monitor_serial_port_verified [of "port_opens env" "boot_events env" serial ds df]
      m assms(2) that(4) have "\<not> v" by (cases v) auto
    with that assms(2) show ?thesis by (simp add: d verify_flashed_def)
  qed
  have 2: "deploy_firmware env serial True reprogram" if "\<not> truthy (new_port env)"
    using that by (simp add: d verify_flashed_def)
  have 3: "deploy_firmware env serial True reprogram"
    if "monitor_serial_port (port_opens env) (boot_events env) serial = (False, ds, df)"
      and "\<not> (truthy ds \<and> ds \<noteq> serial)"
    using that by (auto simp: d verify_flashed_def)
  from 1 2 3 show ?thesis by blast
qed


theorem deploy_mismatch_fails_silence_succeeds_witness:
  "flashed deploy_env_other_serial \<and> flashed deploy_env_no_port \<and> flashed deploy_env_timeout
   \<and> truthy (Some ''SN-001'')
   \<and> monitor_serial_port True (boot_events deploy_env_other_serial) (Some ''SN-001'')
       = (False, Some ''SN-007'', Some ''1.0.0'')
   \<and> \<not> deploy_firmware deploy_env_other_serial (Some ''SN-001'') True False
   \<and> deploy_firmware deploy_env_other_serial (Some ''SN-001'') True True
   \<and> \<not> truthy (new_port deploy_env_no_port)
   \<and> deploy_firmware deploy_env_no_port (Some ''SN-001'') True False
   \<and> monitor_serial_port True (boot_events deploy_env_timeout) (Some ''SN-001'')
       = (False, None, Some ''1.0.0'')
   \<and> deploy_firmware deploy_env_timeout (Some ''SN-001'') True False"
proof -
  have f: "flashed deploy_env_other_serial" "flashed deploy_env_no_port"
    "flashed deploy_env_timeout"
    by code_simp+
  have t: "truthy (Some ''SN-001'')"
    by (simp add: truthy_def)
  have p1: "truthy (new_port deploy_env_other_serial)" "port_opens deploy_env_other_serial"
    by (simp_all add: deploy_env_other_serial_def truthy_def)
  have m1: "monitor_serial_port True (boot_events deploy_env_other_serial) (Some ''SN-001'')
       = (False, Some ''SN-007'', Some ''1.0.0'')"
    by code_simp
  have n1: "truthy (Some ''SN-007'')" "Some ''SN-007'' \<noteq> Some ''SN-001''"
    by (simp_all add: truthy_def)
  have p2: "\<not> truthy (new_port deploy_env_no_port)"
    by (simp add: deploy_env_no_port_def truthy_def)
  have p3: "port_opens deploy_env_timeout"
    by (simp add: deploy_env_timeout_def)
  have m3: "monitor_serial_port True (boot_events deploy_env_timeout) (Some ''SN-001'')
       = (False, None, Some ''1.0.0'')"
    by code_simp
  have n3: "\<not> (truthy None \<and> None \<noteq> Some ''SN-001'')"
    by (simp add: truthy_def)
  from deploy_mismatch_fails_silence_succeeds
         [OF f(1) t, of False "Some ''SN-007''" "Some ''1.0.0''" False] p1 m1 n1
  have a: "\<not> deploy_firmware deploy_env_other_serial (Some ''SN-001'') True False"
    by simp
  from deploy_mismatch_fails_silence_succeeds
         [OF f(1) t, of False "Some ''SN-007''" "Some ''1.0.0''" True] p1 m1 n1
  have b: "deploy_firmware deploy_env_other_serial (Some ''SN-001'') True True"
    by simp
  from deploy_mismatch_fails_silence_succeeds [OF f(2) t, of False None None False] p2
  have c: "deploy_firmware deploy_env_no_port (Some ''SN-001'') True False"
    by simp
  from deploy_mismatch_fails_silence_succeeds
         [OF f(3) t, of False None "Some ''1.0.0''" False] p3 m3 n3
  have d: "deploy_firmware deploy_env_timeout (Some ''SN-001'') True False"
    by simp
  from f t m1 a b p2 c m3 d show ?thesis by simp
qed

section \<open>Properties of the workflow\<close>

lemma ctx_queue_message [simp]:
  "ctx_upload_result (queue_message msg out) = ctx_upload_result out"
  by (simp add: queue_message_def)

lemma ctx_raise_error [simp]: "ctx_upload_result (raise_error e out) = ctx_upload_result out"
  by (simp add: raise_error_def)

lemma ctx_complete [simp]: "ctx_upload_result (complete out) = ctx_upload_result out"
  by (simp add: complete_def)

lemma ctx_step_update_csv [simp]:
  "ctx_upload_result (step_update_csv env out) = ctx_upload_result out"
  by (simp add: step_update_csv_def Let_def split: option.splits sum.splits prod.splits bool.splits)

lemma ctx_step_report [simp]: "ctx_upload_result (step_report env out) = ctx_upload_result out"
  by (simp add: step_report_def Let_def split: sum.splits)

lemma ctx_step_label [simp]: "ctx_upload_result (step_label env out) = ctx_upload_result out"
  by (simp add: step_label_def Let_def split: sum.splits)

lemma ctx_step_verify [simp]: "ctx_upload_result (step_verify env out) = ctx_upload_result out"
  by (simp add: step_verify_def Let_def split: sum.splits)

lemma ctx_step_provision [simp]:
  "ctx_upload_result (step_provision env out) = ctx_upload_result out"
  by (simp add: step_provision_def Let_def split: sum.splits prod.splits)

lemma ctx_step_wait_serial [simp]:
  "ctx_upload_result (step_wait_serial env out) = ctx_upload_result out"
  by (simp add: step_wait_serial_def Let_def split: sum.splits)

lemma ctx_run_workflow:
  "ctx_upload_result (run_workflow env csv) =
     (if stop_requested env 1 then None
      else case upload_step env of Inl e \<Rightarrow> None | Inr r \<Rightarrow> Some r)"
  by (simp add: run_workflow_def Let_def split: sum.splits)

text \<open>
  C7. In a run whose upload result has \<open>success = false\<close>, the worker queues the state
  UPLOADING_FIRMWARE and an error message and nothing else. The window, working the queue
  off from any state, enters UPLOADING_FIRMWARE and then ERROR, where it stays: none of
  WAITING_FOR_SERIAL, PROVISIONING, VERIFYING, GENERATING_LABEL, GENERATING_REPORT,
  UPDATING_CSV and COMPLETED is entered. The ledger manager is as it was, and
  \<open>CSVManager.save\<close> is not called.
\<close>

theorem failed_upload_short_circuits:
  assumes "ctx_upload_result (run_workflow env csv) = Some r" and "\<not> success r"
  shows "queue (run_workflow env csv)
           = [State UPLOADING_FIRMWARE, Error (''Firmware upload failed: '' @ u_message r)]
       \<and> states_entered s0 (queue (run_workflow env csv)) = [UPLOADING_FIRMWARE, ERROR]
       \<and> set (states_entered s0 (queue (run_workflow env csv))) \<inter> later_states = {}
       \<and> final_state s0 (queue (run_workflow env csv)) = ERROR
       \<and> ledger (run_workflow env csv) = csv
       \<and> save_calls (run_workflow env csv) = 0"
proof -
  from assms(1) have ran: "\<not> stop_requested env 1" and up: "upload_step env = Inr r"
    by (auto simp: ctx_run_workflow split: if_splits sum.splits)
  from ran up assms(2) have out: "run_workflow env csv =
      \<lparr>queue = [State UPLOADING_FIRMWARE, Error (''Firmware upload failed: '' @ u_message r)],
        ledger = csv, save_calls = 0, ctx_upload_result = Some r\<rparr>"
    by (simp add: run_workflow_def Let_def raise_error_def queue_message_def)
  show ?thesis
    unfolding out by (simp add: final_state_def later_states_def)
qed

theorem failed_upload_short_circuits_witness:
  "ctx_upload_result (run_workflow failed_upload_env (Some programmed_ledger))
     = Some \<lparr>u_status = NO_DEVICE, u_message = ''No RP2040 device found in BOOTSEL mode'',
             exit_code = 1, stdout = [], stderr = []\<rparr>
   \<and> \<not> success \<lparr>u_status = NO_DEVICE, u_message = ''No RP2040 device found in BOOTSEL mode'',
             exit_code = 1, stdout = [], stderr = []\<rparr>
   \<and> states_entered IDLE (queue (run_workflow failed_upload_env (Some programmed_ledger)))
       = [UPLOADING_FIRMWARE, ERROR]
   \<and> ledger (run_workflow failed_upload_env (Some programmed_ledger)) = Some programmed_ledger"
proof -
  have h: "ctx_upload_result (run_workflow failed_upload_env (Some programmed_ledger))
     = Some \<lparr>u_status = NO_DEVICE, u_message = ''No RP2040 device found in BOOTSEL mode'',
             exit_code = 1, stdout = [], stderr = []\<rparr>"
    by (simp add: ctx_run_workflow failed_upload_env_def)
  have n: "\<not> success \<lparr>u_status = NO_DEVICE,
             u_message = ''No RP2040 device found in BOOTSEL mode'',
             exit_code = 1, stdout = [], stderr = []\<rparr>"
    by (simp add: success_def)
  from failed_upload_short_circuits [OF h n, of IDLE] h n show ?thesis by simp
qed

section \<open>Properties of the serial markers\<close>

lemma py_range_Nil: "stop \<le> start \<Longrightarrow> py_range start stop step = []"
  by (simp add: py_range.simps)

lemma py_range_Cons:
  "0 < step \<Longrightarrow> start < stop \<Longrightarrow>
     py_range start stop step = start # py_range (start + step) stop step"
  by (subst py_range.simps) simp

lemma py_range_shift:
  "py_range (a + k) (b + k) s = map (\<lambda>p. p + k) (py_range a b s)"
proof (induction a b s rule: py_range.induct)
  case (1 start stop step)
  show ?case
  proof (cases "step = 0 \<or> stop \<le> start")
    case True
    then show ?thesis by (auto simp: py_range.simps)
  next
    case False
    then have s: "0 < step" "start < stop" by auto
    have "py_range (start + k) (stop + k) step
        = (start + k) # py_range (start + step + k) (stop + k) step"
      using s by (subst py_range.simps) (simp add: add.commute add.left_commute)
    also have "py_range (start + step + k) (stop + k) step
        = map (\<lambda>p. p + k) (py_range (start + step) stop step)"
      using "1.IH" False by simp
    finally show ?thesis using s by (simp add: py_range_Cons)
  qed
qed

lemma insert_at_append:
  "insert_at (i + length p0) m (p0 @ r) = p0 @ insert_at i m r"
  by (simp add: insert_at_def)

lemma fold_insert_offset:
  "fold (\<lambda>i d. insert_at i m d) (map (\<lambda>p. p + length p0) ps) (p0 @ r)
     = p0 @ fold (\<lambda>i d. insert_at i m d) ps r"
  by (induction ps arbitrary: r) (simp_all add: insert_at_append)

lemma insert_markers_chunked:
  "0 < k \<Longrightarrow> insert_markers k m xs = chunked_with k m xs"
proof (induction k m xs rule: chunked_with.induct)
  case (1 k marker bytes)
  show ?case
  proof (cases "length bytes \<le> k")
    case True
    then show ?thesis
      by (simp add: insert_markers_def insertion_points_def py_range_Nil chunked_with.simps)
  next
    case False
    with "1.prems" have lt: "k < length bytes" and k: "0 < k" by auto
    define R where "R = py_range k (length bytes - k) k"
    define f where "f = (\<lambda>i d. insert_at i marker (d :: string))"
    have len: "length (take k bytes) = k" using lt by simp
    have "py_range k (length bytes) k = k # py_range (k + k) (length bytes - k + k) k"
      using lt k by (simp add: py_range_Cons)
    also have "py_range (k + k) (length bytes - k + k) k = map (\<lambda>p. p + k) R"
      unfolding R_def by (rule py_range_shift)
    finally have pts: "py_range k (length bytes) k = k # map (\<lambda>p. p + k) R" .
    have ih: "insert_markers k marker (drop k bytes) = chunked_with k marker (drop k bytes)"
      using "1.IH" False k by simp
    have Z: "fold f (rev R) (drop k bytes @ marker) = chunked_with k marker (drop k bytes)"
      using ih by (simp add: insert_markers_def insertion_points_def R_def f_def)
    have "insert_markers k marker bytes
        = f k (fold f (map (\<lambda>p. p + k) (rev R)) (bytes @ marker))"
      by (simp add: insert_markers_def insertion_points_def pts f_def rev_map)
    also have "fold f (map (\<lambda>p. p + k) (rev R)) (bytes @ marker)
        = fold f (map (\<lambda>p. p + length (take k bytes)) (rev R))
            (take k bytes @ (drop k bytes @ marker))"
      unfolding len by (simp only: append_assoc [symmetric] append_take_drop_id)
    also have "\<dots> = take k bytes @ fold f (rev R) (drop k bytes @ marker)"
      unfolding f_def by (rule fold_insert_offset)
    also have "f k (take k bytes @ fold f (rev R) (drop k bytes @ marker))
        = take k bytes @ marker @ fold f (rev R) (drop k bytes @ marker)"
      using insert_at_append [of 0 "take k bytes" marker] len
      by (simp add: f_def insert_at_def)
    finally show ?thesis
      using lt k by (simp add: Z chunked_with.simps [of k marker bytes])
  qed
qed

lemma div_step: "0 < k \<Longrightarrow> k < n \<Longrightarrow> (n - Suc 0) div k = Suc ((n - Suc k) div k)"
proof -
  assume k: "0 < k" and lt: "k < (n::nat)"
  have "n - Suc 0 = (n - Suc k) + k" using lt by simp
  moreover have "((n - Suc k) + k) div k = Suc ((n - Suc k) div k)" using k by simp
  ultimately show ?thesis by simp
qed

lemma py_range_unfold:
  "0 < k \<Longrightarrow> k < n \<Longrightarrow> py_range k n k = k # map (\<lambda>p. p + k) (py_range k (n - k) k)"
proof -
  assume k: "0 < k" and lt: "k < n"
  have "py_range k n k = k # py_range (k + k) (n - k + k) k"
    using lt k by (simp add: py_range_Cons)
  also have "py_range (k + k) (n - k + k) k = map (\<lambda>p. p + k) (py_range k (n - k) k)"
    by (rule py_range_shift)
  finally show ?thesis .
qed

lemma length_py_range:
  "0 < k \<Longrightarrow> length (py_range k n k) = (n - 1) div k"
proof (induction n rule: less_induct)
  case (less n)
  show ?case
  proof (cases "n \<le> k")
    case True
    then have "(n - 1) div k = 0" using less.prems by simp
    with True show ?thesis by (simp add: py_range_Nil)
  next
    case False
    then have lt: "k < n" by simp
    have "length (py_range k n k) = Suc (length (py_range k (n - k) k))"
      by (simp add: py_range_unfold [OF less.prems lt])
    also have "length (py_range k (n - k) k) = (n - k - 1) div k"
      using less.IH [of "n - k"] lt less.prems by simp
    finally show ?thesis by (simp add: div_step [OF less.prems lt])
  qed
qed


lemma length_chunked_with:
  "0 < k \<Longrightarrow> length (chunked_with k m xs) = length xs + ((length xs - 1) div k + 1) * length m"
proof (induction k m xs rule: chunked_with.induct)
  case (1 k marker bytes)
  show ?case
  proof (cases "length bytes \<le> k")
    case True
    then have "(length bytes - 1) div k = 0" using "1.prems" by simp
    with True show ?thesis by (simp add: chunked_with.simps)
  next
    case False
    then have lt: "k < length bytes" by simp
    have ih: "length (chunked_with k marker (drop k bytes))
        = length (drop k bytes) + ((length (drop k bytes) - 1) div k + 1) * length marker"
      using "1.IH" False "1.prems" by simp
    have "length (chunked_with k marker bytes)
        = k + length marker + length (chunked_with k marker (drop k bytes))"
      using lt "1.prems" by (simp add: chunked_with.simps [of k marker bytes])
    also have "\<dots> = length bytes + (Suc ((length bytes - Suc k) div k) + 1) * length marker"
      using lt by (simp add: ih)
    finally show ?thesis
      by (simp add: div_step [OF "1.prems" lt])
  qed
qed

lemma multiples_below_small:
  assumes "0 < (k::nat)" "n \<le> k"
  shows "{p. 0 < p \<and> p < n \<and> k dvd p} = ({} :: nat set)"
proof -
  have "\<not> (0 < p \<and> p < n \<and> k dvd p)" for p
  proof
    assume a: "0 < p \<and> p < n \<and> k dvd p"
    then have "k \<le> p" by (simp add: dvd_imp_le)
    with a assms show False by simp
  qed
  then show ?thesis by simp
qed

lemma multiples_below_step:
  assumes k: "0 < (k::nat)" and lt: "k < n"
  shows "insert k ((\<lambda>p. p + k) ` {p. 0 < p \<and> p < n - k \<and> k dvd p})
           = {p. 0 < p \<and> p < n \<and> k dvd p}" (is "?A = ?B")
proof (rule set_eqI)
  fix q
  show "q \<in> ?A \<longleftrightarrow> q \<in> ?B"
  proof
    assume "q \<in> ?A"
    then have "q = k \<or> (\<exists>p. q = p + k \<and> 0 < p \<and> p < n - k \<and> k dvd p)"
      by blast
    then show "q \<in> ?B"
    proof
      assume "q = k"
      then show ?thesis using lt k by (simp add: dvd_refl)
    next
      assume "\<exists>p. q = p + k \<and> 0 < p \<and> p < n - k \<and> k dvd p"
      then obtain p where p: "q = p + k" "0 < p" "p < n - k" "k dvd p" by blast
      from p(3) have "p + k < n" by simp
      moreover from p(4) have "k dvd p + k" by simp
      ultimately show ?thesis using p(1) p(2) by simp
    qed
  next
    assume q: "q \<in> ?B"
    then have q1: "0 < q" and q2: "q < n" and q3: "k dvd q" by simp_all
    from q1 q3 have kq: "k \<le> q" by (simp add: dvd_imp_le)
    show "q \<in> ?A"
    proof (cases "q = k")
      case True
      then show ?thesis by simp
    next
      case False
      with kq have a: "0 < q - k" by simp
      from q3 kq have b: "k dvd (q - k)" by (simp add: dvd_diff_nat)
      from q2 kq have c: "q - k < n - k" by simp
      have d: "q = (q - k) + k" using kq by simp
      from a b c have "q - k \<in> {p. 0 < p \<and> p < n - k \<and> k dvd p}" by simp
      then have "(q - k) + k \<in> (\<lambda>p. p + k) ` {p. 0 < p \<and> p < n - k \<and> k dvd p}"
        by (rule imageI)
      with d have "q \<in> (\<lambda>p. p + k) ` {p. 0 < p \<and> p < n - k \<and> k dvd p}" by simp
      then show ?thesis by (rule insertI2)
    qed
  qed
qed

lemma set_py_range:
  "0 < k \<Longrightarrow> set (py_range k n k) = {p. 0 < p \<and> p < n \<and> k dvd p}"
proof (induction n rule: less_induct)
  case (less n)
  show ?case
  proof (cases "n \<le> k")
    case True
    with multiples_below_small [OF less.prems True] show ?thesis
      by (simp only: py_range_Nil set_simps)
  next
    case False
    then have lt: "k < n" by simp
    have "n - k < n" using lt less.prems by simp
    from less.IH [OF this less.prems]
    have ih: "set (py_range k (n - k) k) = {p. 0 < p \<and> p < n - k \<and> k dvd p}" .
    have "set (py_range k n k) = insert k ((\<lambda>p. p + k) ` set (py_range k (n - k) k))"
      by (simp only: py_range_unfold [OF less.prems lt] list.set set_map)
    then show ?thesis
      by (simp only: ih multiples_below_step [OF less.prems lt])
  qed
qed

lemma chunked_with_head:
  "0 < k \<Longrightarrow> \<exists>rest. chunked_with k m xs = take k xs @ m @ rest"
  by (cases "length xs \<le> k") (simp_all add: chunked_with.simps [of k m xs])

lemma re_search_hit: "f s = Some g \<Longrightarrow> re_search f s = Some g"
  by (cases s) simp_all

lemma no_straddle:
  assumes "last P \<notin> set (butlast P)" and "u \<noteq> []" and "\<not> prefix P u" and "prefix P mm"
  shows "\<not> prefix P (u @ mm)"
proof
  assume "prefix P (u @ mm)"
  with assms(3) obtain us where us: "P = u @ us" "prefix us mm"
    by (auto simp: prefix_append)
  from us(1) assms(3) have ne: "us \<noteq> []" by auto
  from us(2) assms(4) have "prefix us P \<or> prefix P us"
    by (rule prefix_same_cases)
  moreover have "\<not> prefix P us"
    using us(1) assms(2) by (auto dest: prefix_length_le)
  ultimately have "prefix us P" by simp
  moreover have "us \<noteq> P" using us(1) assms(2) by auto
  moreover have "P = butlast P @ [last P]" using us(1) assms(2) by simp
  ultimately have "prefix us (butlast P)" by (metis prefix_snoc)
  then have "set us \<subseteq> set (butlast P)" by (rule set_mono_prefix)
  moreover have "last P = last us" using us(1) ne by simp
  moreover have "last us \<in> set us" using ne by simp
  ultimately show False using assms(1) by auto
qed

lemma match_marker_prefix: "match_marker s = Some g \<Longrightarrow> prefix ''DEVICE_ID:'' s"
  by (simp add: match_marker_def split: if_splits)

lemma marker_tag_last: "last ''DEVICE_ID:'' \<notin> set (butlast ''DEVICE_ID:'')"
  by simp

lemma re_search_skip:
  assumes "\<not> contains ''DEVICE_ID:'' c0" and "prefix ''DEVICE_ID:'' mm"
  shows "re_search match_marker (c0 @ mm) = re_search match_marker mm"
  using assms(1)
proof (induction c0)
  case Nil
  then show ?case by simp
next
  case (Cons c cs)
  then have np: "\<not> prefix ''DEVICE_ID:'' (c # cs)" and nc: "\<not> contains ''DEVICE_ID:'' cs"
    by simp_all
  from no_straddle [OF marker_tag_last _ np assms(2)]
  have "\<not> prefix ''DEVICE_ID:'' ((c # cs) @ mm)" by simp
  then have "match_marker ((c # cs) @ mm) = None"
    using match_marker_prefix [of "(c # cs) @ mm"] by (cases "match_marker ((c # cs) @ mm)") auto
  then show ?case using Cons.IH [OF nc] by simp
qed

lemma match_marker_text:
  assumes "serial \<noteq> []" and "CHR '':'' \<notin> set serial"
  shows "match_marker (marker_text serial @ rest) = Some serial"
proof -
  from assms(2) have all: "\<forall>x\<in>set serial. x \<noteq> CHR '':''"
    by blast
  then have tw0: "takeWhile (\<lambda>c. c \<noteq> CHR '':'') serial = serial"
    and dw0: "dropWhile (\<lambda>c. c \<noteq> CHR '':'') serial = []"
    by (simp_all add: takeWhile_eq_all_conv dropWhile_eq_Nil_conv)
  have tw: "takeWhile (\<lambda>c. c \<noteq> CHR '':'') (serial @ CHR '':'' # ''END'' @ rest) = serial"
    by (simp add: takeWhile_tail tw0)
  have dw: "dropWhile (\<lambda>c. c \<noteq> CHR '':'') (serial @ CHR '':'' # ''END'' @ rest)
              = CHR '':'' # ''END'' @ rest"
    by (simp add: dropWhile_append3 dw0)
  have dr: "drop 10 (marker_text serial @ rest) = serial @ CHR '':'' # ''END'' @ rest"
    by (simp add: marker_text_def)
  have pf: "prefix ''DEVICE_ID:'' (marker_text serial @ rest)"
    by (simp add: marker_text_def)
  show ?thesis
    unfolding match_marker_def Let_def dr tw dw using pf assms(1) by simp
qed

lemma marker_text_ascii: "list_all is_ascii serial \<Longrightarrow> list_all is_ascii (marker_text serial)"
  by (simp add: marker_text_def is_ascii_def)

lemma extract_from_chunked:
  assumes "serial \<noteq> []" and "CHR '':'' \<notin> set serial" and "list_all is_ascii serial"
    and "\<not> contains ''DEVICE_ID:'' (take interval buf)"
  shows "extract_serial_from_uf2 (Some (chunked_with interval (marker_text serial) buf))
           = Some serial"
proof -
  have "0 < interval" by (simp add: interval_def)
  from chunked_with_head [OF this, of "marker_text serial" buf]
  obtain rest where c: "chunked_with interval (marker_text serial) buf
      = take interval buf @ marker_text serial @ rest" by blast
  have p: "prefix ''DEVICE_ID:'' (marker_text serial @ rest)"
    by (simp add: marker_text_def)
  have "re_search match_marker (take interval buf @ marker_text serial @ rest)
      = re_search match_marker (marker_text serial @ rest)"
    using assms(4) p by (rule re_search_skip)
  also have "\<dots> = Some serial"
    by (rule re_search_hit) (rule match_marker_text [OF assms(1,2)])
  finally show ?thesis
    using assms(3) by (simp add: extract_serial_from_uf2_def c encode_ascii_def)
qed

lemma embed_serial_number_result:
  assumes "serial \<noteq> []" and "list_all is_ascii serial"
    and "ensure_data uf = Some uf1" and "uf2_data uf1 = Some buf"
  shows "embed_serial_number uf serial
           = (True, uf1\<lparr>uf2_data := Some (chunked_with interval (marker_text serial) buf)\<rparr>)"
proof -
  have "0 < interval" by (simp add: interval_def)
  then have "insert_markers interval (marker_text serial) buf
      = chunked_with interval (marker_text serial) buf"
    by (rule insert_markers_chunked)
  then show ?thesis
    using assms marker_text_ascii [OF assms(2)]
    by (simp add: embed_serial_number_def encode_ascii_def)
qed

lemma embed_serial_number_True:
  assumes "embed_serial_number uf serial = (True, uf')"
  shows "serial \<noteq> [] \<and> list_all is_ascii serial"
  using assms
  by (auto simp: embed_serial_number_def encode_ascii_def marker_text_def
      split: if_splits option.splits sum.splits)

lemma marker_count_formula:
  "int (marker_count n) = (if n = 0 then 1 else (int n - 1) div 10240 + 1)"
proof -
  have "0 < interval" by (simp add: interval_def)
  then have m: "marker_count n = (n - 1) div interval + 1"
    by (simp add: marker_count_def insertion_points_def length_py_range)
  show ?thesis
  proof (cases "n = 0")
    case True
    with m show ?thesis by simp
  next
    case False
    then have "int ((n - 1) div interval) = (int n - 1) div 10240"
      by (simp add: zdiv_int of_nat_diff interval_def)
    with m False show ?thesis by simp
  qed
qed

text \<open>
  C5, as amended. Let \<open>embed_serial_number\<close> succeed on a buffer of \<open>L\<close> bytes. Its result is
  the buffer cut into pieces of 10240 bytes, each followed by the marker
  \<open>DEVICE_ID:<serial>:END\<close>. The insertion points are the multiples of 10240 strictly between
  0 and \<open>L\<close>; with the copy at the end this makes \<open>floor((L - 1) / 10240) + 1\<close> copies when
  \<open>L \<ge> 1\<close>, and one copy when \<open>L = 0\<close>. The result is longer than the buffer by the number
  of copies times the length of the marker.
\<close>

theorem embed_marker_placement:
  assumes "embed_serial_number uf serial = (True, uf')"
    and "ensure_data uf = Some uf1" and "uf2_data uf1 = Some buf"
  shows "uf2_data uf' = Some (chunked_with interval (marker_text serial) buf)
       \<and> set (insertion_points interval (length buf))
           = {p. 0 < p \<and> p < length buf \<and> interval dvd p}
       \<and> int (marker_count (length buf))
           = (if length buf = 0 then 1 else (int (length buf) - 1) div 10240 + 1)
       \<and> length (chunked_with interval (marker_text serial) buf)
           = length buf + marker_count (length buf) * length (marker_text serial)"
proof -
  have k: "0 < interval" by (simp add: interval_def)
  from embed_serial_number_True [OF assms(1)]
  have "serial \<noteq> []" "list_all is_ascii serial" by simp_all
  from embed_serial_number_result [OF this assms(2,3)] assms(1)
  have 1: "uf2_data uf' = Some (chunked_with interval (marker_text serial) buf)"
    by auto
  have 2: "set (insertion_points interval (length buf))
           = {p. 0 < p \<and> p < length buf \<and> interval dvd p}"
    unfolding insertion_points_def by (rule set_py_range [OF k])
  have 3: "int (marker_count (length buf))
           = (if length buf = 0 then 1 else (int (length buf) - 1) div 10240 + 1)"
    by (rule marker_count_formula)
  have "marker_count (length buf) = (length buf - 1) div interval + 1"
    using k by (simp add: marker_count_def insertion_points_def length_py_range)
  then have 4: "length (chunked_with interval (marker_text serial) buf)
           = length buf + marker_count (length buf) * length (marker_text serial)"
    by (simp only: length_chunked_with [OF k])
  from 1 2 3 4 show ?thesis by blast
qed

theorem embed_marker_placement_witness:
  "embed_serial_number small_uf2 ''SN-002''
     = (True, \<lparr>uf2_disk = Some ''UF2 0'', uf2_data = Some ''UF2 0DEVICE_ID:SN-002:END''\<rparr>)
   \<and> ensure_data small_uf2 = Some \<lparr>uf2_disk = Some ''UF2 0'', uf2_data = Some ''UF2 0''\<rparr>
   \<and> marker_count (length ''UF2 0'') = 1
   \<and> chunked_with interval (marker_text ''SN-002'') ''UF2 0'' = ''UF2 0DEVICE_ID:SN-002:END''"
proof -
  have e: "embed_serial_number small_uf2 ''SN-002''
     = (True, \<lparr>uf2_disk = Some ''UF2 0'', uf2_data = Some ''UF2 0DEVICE_ID:SN-002:END''\<rparr>)"
    by code_simp
  have d: "ensure_data small_uf2 = Some \<lparr>uf2_disk = Some ''UF2 0'', uf2_data = Some ''UF2 0''\<rparr>"
    by code_simp
  have b: "uf2_data \<lparr>uf2_disk = Some ''UF2 0'', uf2_data = Some ''UF2 0''\<rparr> = Some ''UF2 0''"
    by simp
  from embed_marker_placement [OF e d b] e d show ?thesis by simp
qed

text \<open>
  C5 as stated fails for the empty buffer (an empty file that can be read): one copy of the
  marker is appended, where \<open>floor((0 - 1) / 10240) + 1\<close> is 0.
\<close>

theorem embed_empty_buffer_counterexample:
  "embed_serial_number empty_uf2 ''SN-002''
     = (True, \<lparr>uf2_disk = Some [], uf2_data = Some ''DEVICE_ID:SN-002:END''\<rparr>)
   \<and> marker_count (length ([] :: string)) = 1
   \<and> (int (length ([] :: string)) - 1) div 10240 + 1 = 0"
  by code_simp

text \<open>
  C2, as amended. Let the serial number be non-empty, ASCII and free of colons, and let the
  first 10240 bytes of the buffer not contain the text \<open>DEVICE_ID:\<close>. Then embedding
  succeeds, and extracting from the file written afterwards returns exactly the serial
  number.
\<close>

theorem extract_after_embed:
  assumes "serial \<noteq> []" and "CHR '':'' \<notin> set serial" and "list_all is_ascii serial"
    and "ensure_data uf = Some uf1" and "uf2_data uf1 = Some buf"
    and "\<not> contains ''DEVICE_ID:'' (take interval buf)"
  shows "\<exists>uf2 uf3. embed_serial_number uf serial = (True, uf2)
           \<and> write_file uf2 True = Some uf3
           \<and> extract_serial_from_uf2 (uf2_disk uf3) = Some serial"
proof -
  define out where "out = chunked_with interval (marker_text serial) buf"
  have e: "embed_serial_number uf serial = (True, uf1\<lparr>uf2_data := Some out\<rparr>)"
    unfolding out_def by (rule embed_serial_number_result [OF assms(1,3,4,5)])
  have w: "write_file (uf1\<lparr>uf2_data := Some out\<rparr>) True
      = Some (uf1\<lparr>uf2_data := Some out, uf2_disk := Some out\<rparr>)"
    by (simp add: write_file_def)
  have x: "extract_serial_from_uf2 (uf2_disk (uf1\<lparr>uf2_data := Some out, uf2_disk := Some out\<rparr>))
      = Some serial"
    unfolding out_def using extract_from_chunked [OF assms(1,2,3,6)] by simp
  from e w x show ?thesis by blast
qed

theorem extract_after_embed_witness:
  "''SN-002'' \<noteq> [] \<and> CHR '':'' \<notin> set ''SN-002'' \<and> list_all is_ascii ''SN-002''
   \<and> \<not> contains ''DEVICE_ID:'' (take interval ''UF2 0'')
   \<and> (\<exists>uf2 uf3. embed_serial_number small_uf2 ''SN-002'' = (True, uf2)
           \<and> write_file uf2 True = Some uf3
           \<and> extract_serial_from_uf2 (uf2_disk uf3) = Some ''SN-002'')
   \<and> extract_serial_from_uf2 (uf2_disk (modify_uf2_with_serial small_uf2 ''SN-002'' True))
       = Some ''SN-002''"
proof -
  have a: "''SN-002'' \<noteq> []" by simp
  have b: "CHR '':'' \<notin> set ''SN-002''" by simp
  have c: "list_all is_ascii ''SN-002''" by code_simp
  have d: "ensure_data small_uf2 = Some \<lparr>uf2_disk = Some ''UF2 0'', uf2_data = Some ''UF2 0''\<rparr>"
    by code_simp
  have e: "uf2_data \<lparr>uf2_disk = Some ''UF2 0'', uf2_data = Some ''UF2 0''\<rparr> = Some ''UF2 0''"
    by simp
  have f: "\<not> contains ''DEVICE_ID:'' (take interval ''UF2 0'')" by code_simp
  have g: "extract_serial_from_uf2 (uf2_disk (modify_uf2_with_serial small_uf2 ''SN-002'' True))
       = Some ''SN-002''"
    by code_simp
  from extract_after_embed [OF a b c d e f] a b c f g show ?thesis by blast
qed

text \<open>
  C2 as stated fails. From a buffer that already holds a marker, extraction returns the
  serial number of that older marker, which comes first; and a serial number with a colon
  in it is embedded but not found again, since the pattern's group stops at a colon.
\<close>

theorem extract_after_embed_counterexample:
  "fst (embed_serial_number marked_uf2 ''SN-002'')
   \<and> extract_serial_from_uf2 (uf2_data (snd (embed_serial_number marked_uf2 ''SN-002'')))
       = Some ''SN-001''
   \<and> extract_serial_from_uf2 (uf2_disk (modify_uf2_with_serial marked_uf2 ''SN-002'' True))
       = Some ''SN-001''
   \<and> fst (embed_serial_number small_uf2 ''SN:002'')
   \<and> extract_serial_from_uf2 (uf2_data (snd (embed_serial_number small_uf2 ''SN:002'')))
       = None"
  by code_simp

end
